theory Spec2Isabelle
  imports Main
begin

section \<open>Values carried by a request\<close>

text \<open>
  The fields of a JSON body and the parameters of a query string are JavaScript values.
  The handlers of \<^verbatim>\<open>backend/server.js\<close> test them for truthiness (\<^verbatim>\<open>!base_id\<close>) and compare
  them with strict equality (\<^verbatim>\<open>===\<close>, \<^verbatim>\<open>!==\<close>), so the model keeps the JavaScript types
  apart: the number \<open>1\<close> and the string \<open>''1''\<close> are different values.

  Numbers are the integers. A number with a fraction takes, at every place of this program,
  the path of a string that the store does not read as an integer: it is truthy, strictly
  equal only to itself, never equal to an id held in a token, and rejected by an INTEGER
  column. \<open>JObj\<close> stands for an array or an object; two of them parsed from a request are
  two references and never strictly equal.
\<close>

datatype jsval = JUndefined | JNull | JBool bool | JNum int | JStr string | JObj

fun truthy :: "jsval \<Rightarrow> bool" where
  "truthy JUndefined = False"
| "truthy JNull = False"
| "truthy (JBool b) = b"
| "truthy (JNum n) = (n \<noteq> 0)"
| "truthy (JStr s) = (s \<noteq> [])"
| "truthy JObj = True"

fun strict_eq :: "jsval \<Rightarrow> jsval \<Rightarrow> bool" where
  "strict_eq JUndefined JUndefined = True"
| "strict_eq JNull JNull = True"
| "strict_eq (JBool a) (JBool b) = (a = b)"
| "strict_eq (JNum a) (JNum b) = (a = b)"
| "strict_eq (JStr a) (JStr b) = (a = b)"
| "strict_eq _ _ = False"

section \<open>Users, tokens and the collaborators outside the repository\<close>

text \<open>
  The column \<^verbatim>\<open>users.role\<close> of \<^verbatim>\<open>backend/schema.sql\<close> carries
  \<^verbatim>\<open>CHECK (role IN ('admin', 'commander', 'logistics'))\<close>, and a token is only ever signed
  from a row of that table, so a role is one of three. \<^verbatim>\<open>users.base_id\<close> is nullable.
\<close>

datatype role = Admin | Commander | Logistics

text \<open>The payload of a token, as \<^verbatim>\<open>/api/auth/login\<close> signs it: \<^verbatim>\<open>req.user\<close>.\<close>

record user =
  u_id :: int
  u_email :: string
  u_role :: role
  u_base_id :: "int option"

text \<open>\<^verbatim>\<open>req.user.base_id\<close> as a JavaScript value: a number, or \<^verbatim>\<open>null\<close>.\<close>

definition user_base :: "user \<Rightarrow> jsval" where
  "user_base u = (case u_base_id u of None \<Rightarrow> JNull | Some b \<Rightarrow> JNum b)"

text \<open>
  What the program calls but does not contain is a parameter of the model:
  \<^item> \<open>jwt_verify\<close>: \<^verbatim>\<open>jwt.verify(token, JWT_SECRET, ...)\<close>, the decoded payload of a valid token;
  \<^item> \<open>jwt_sign\<close>: \<^verbatim>\<open>jwt.sign(payload, JWT_SECRET, ...)\<close>;
  \<^item> \<open>bcrypt_compare\<close>: \<^verbatim>\<open>bcrypt.compare(password, hash)\<close>;
  \<^item> \<open>int_in\<close>: the integer the store reads from the text of a string bound to an
    integer parameter (\<open>None\<close>: the text is no integer, and the statement fails);
  \<^item> \<open>text_out\<close>: the text the database driver sends for a value that is not a string.
\<close>

record env =
  jwt_verify :: "string \<Rightarrow> user option"
  jwt_sign :: "user \<Rightarrow> string"
  bcrypt_compare :: "string \<Rightarrow> string \<Rightarrow> bool"
  int_in :: "string \<Rightarrow> int option"
  text_out :: "jsval \<Rightarrow> string"

section \<open>The store\<close>

text \<open>
  The tables of \<^verbatim>\<open>backend/schema.sql\<close>, each a list of rows. The INTEGER columns are
  integers. The columns this development computes nothing from (cost, dates, supplier,
  notes, serial number) hold the value the request supplied; timestamps filled by
  \<^verbatim>\<open>NOW()\<close> or a column default are left out.
\<close>

record base_row =
  b_id :: int
  b_name :: string
  b_location :: string
  b_commander_name :: string

record user_row =
  ur_id :: int
  ur_email :: string
  ur_password_hash :: string
  ur_name :: string
  ur_role :: role
  ur_base_id :: "int option"
  ur_is_active :: bool

record equipment_row =
  eq_id :: int
  eq_name :: string
  eq_category :: string
  eq_description :: string
  eq_unit_of_measure :: string

record asset =
  a_base_id :: int
  a_equipment_type_id :: int
  a_quantity :: int

record purchase =
  p_id :: int
  p_base_id :: int
  p_equipment_type_id :: int
  p_quantity :: int
  p_cost :: jsval
  p_purchase_date :: jsval
  p_supplier :: jsval
  p_notes :: jsval
  p_created_by :: "int option"

record transfer =
  t_id :: int
  t_from_base_id :: int
  t_to_base_id :: int
  t_equipment_type_id :: int
  t_quantity :: int
  t_transfer_date :: jsval
  t_status :: string
  t_notes :: jsval
  t_created_by :: "int option"

record assignment =
  as_id :: int
  as_base_id :: int
  as_equipment_type_id :: int
  as_personnel_id :: int
  as_serial_number :: jsval
  as_assignment_date :: jsval
  as_status :: string
  as_notes :: jsval
  as_created_by :: "int option"

record expenditure =
  e_base_id :: int
  e_equipment_type_id :: int
  e_quantity :: int

record audit_log =
  al_id :: int
  al_user_id :: "int option"
  al_action :: string
  al_entity_type :: string
  al_entity_id :: "int option"
  al_details :: "(string \<times> jsval) list"

datatype level = Info | Warn | Error

text \<open>
  The state a request runs against: the tables, the sequences behind the SERIAL ids of the
  tables the program inserts into, the operational log of \<^verbatim>\<open>logger\<close> (level and the
  constant part of the message), and \<open>faults\<close>.

  \<open>faults\<close> is the schedule of the store's failures that the model does not derive from
  the tables: an unreachable store, a date or a decimal that does not parse, a negative
  cost, a text too long for its column. Every \<^verbatim>\<open>pool.query\<close> takes the head of the list; \<open>True\<close> makes
  that call throw. An empty schedule is a store that does not fail. A theorem for every
  schedule holds however the store behaves. \<open>store_calls\<close> counts the calls of
  \<^verbatim>\<open>pool.query\<close> made so far.
\<close>

record state =
  bases_table :: "base_row list"
  users_table :: "user_row list"
  equipment_types_table :: "equipment_row list"
  personnel_table :: "int list"
  assets_table :: "asset list"
  purchases_table :: "purchase list"
  transfers_table :: "transfer list"
  assignments_table :: "assignment list"
  expenditures_table :: "expenditure list"
  audit_logs_table :: "audit_log list"
  purchases_seq :: int
  transfers_seq :: int
  assignments_seq :: int
  audit_logs_seq :: int
  faults :: "bool list"
  store_calls :: nat
  oplog :: "(level \<times> string) list"

definition logger :: "level \<Rightarrow> string \<Rightarrow> state \<Rightarrow> state" where
  "logger lvl msg st = st\<lparr>oplog := oplog st @ [(lvl, msg)]\<rparr>"

text \<open>
  One call of \<^verbatim>\<open>pool.query\<close> reaches the store: \<open>(True, st')\<close> when the statement is
  executed, \<open>(False, st')\<close> when the call throws for a scheduled fault.
\<close>

definition store_call :: "state \<Rightarrow> bool \<times> state" where
  "store_call st =
     (let st' = st\<lparr>store_calls := store_calls st + 1\<rparr>
      in case faults st of
           [] \<Rightarrow> (True, st')
         | f # fs \<Rightarrow> (\<not> f, st'\<lparr>faults := fs\<rparr>))"

text \<open>
  A JavaScript value bound to an integer parameter or column. The driver sends
  \<^verbatim>\<open>undefined\<close> and \<^verbatim>\<open>null\<close> as NULL and everything else as text; the store reads the text
  as an integer of the parameter's range (INTEGER: 32 bits; the bigint of LIMIT and
  OFFSET: 64 bits) or fails the statement.
\<close>

datatype bound = BadParam | SqlNull | SqlInt int

definition in_int4 :: "int \<Rightarrow> bool" where
  "in_int4 n = (- 2147483648 \<le> n \<and> n \<le> 2147483647)"

definition in_int8 :: "int \<Rightarrow> bool" where
  "in_int8 n = (- 9223372036854775808 \<le> n \<and> n \<le> 9223372036854775807)"

fun bind_num :: "(int \<Rightarrow> bool) \<Rightarrow> env \<Rightarrow> jsval \<Rightarrow> bound" where
  "bind_num fits ev JUndefined = SqlNull"
| "bind_num fits ev JNull = SqlNull"
| "bind_num fits ev (JBool b) = BadParam"
| "bind_num fits ev (JNum n) = (if fits n then SqlInt n else BadParam)"
| "bind_num fits ev (JStr s) =
     (case int_in ev s of
        None \<Rightarrow> BadParam
      | Some n \<Rightarrow> if fits n then SqlInt n else BadParam)"
| "bind_num fits ev JObj = BadParam"

definition bind_int :: "env \<Rightarrow> jsval \<Rightarrow> bound" where
  "bind_int = bind_num in_int4"

text \<open>A JavaScript value bound to a text parameter.\<close>

definition bind_text :: "env \<Rightarrow> jsval \<Rightarrow> string" where
  "bind_text ev v = (case v of JStr s \<Rightarrow> s | _ \<Rightarrow> text_out ev v)"

text \<open>
  A handler is a chain of awaited store calls inside \<^verbatim>\<open>try { ... } catch\<close>. A call is a
  function from the state to its result, \<open>None\<close> when it throws, and the state it leaves;
  \<open>await\<close> runs a call and passes its result on, or stops at the throw.
\<close>

type_synonym 'a call = "state \<Rightarrow> 'a option \<times> state"

definition await :: "'a call \<Rightarrow> ('a \<Rightarrow> 'b call) \<Rightarrow> 'b call" where
  "await q k st =
     (case q st of
        (None, st') \<Rightarrow> (None, st')
      | (Some x, st') \<Rightarrow> k x st')"

definition resolve :: "'a \<Rightarrow> 'a call" where
  "resolve x st = (Some x, st)"

text \<open>
  \<^verbatim>\<open>SELECT ... FROM <table> <filter>\<close>. The filter is \<open>None\<close> for a statement with no
  WHERE clause and no parameter, and \<open>Some p\<close> for a WHERE clause over \<^verbatim>\<open>$1\<close> with \<open>p\<close>
  bound to it; \<open>matches b r\<close> is that clause at the row \<open>r\<close> with \<open>b\<close> for \<^verbatim>\<open>$1\<close>. A NULL
  parameter matches no row. The rows come in the order of the table: ORDER BY clauses
  over dates and names are not modelled.
\<close>

definition select_where ::
  "env \<Rightarrow> (int \<Rightarrow> 'r \<Rightarrow> bool) \<Rightarrow> (state \<Rightarrow> 'r list) \<Rightarrow> jsval option \<Rightarrow> 'r list call" where
  "select_where ev matches tbl flt st =
     (case store_call st of
        (False, st') \<Rightarrow> (None, st')
      | (True, st') \<Rightarrow>
          (case flt of
             None \<Rightarrow> (Some (tbl st'), st')
           | Some p \<Rightarrow>
               (case bind_int ev p of
                  BadParam \<Rightarrow> (None, st')
                | SqlNull \<Rightarrow> (Some [], st')
                | SqlInt b \<Rightarrow> (Some (filter (matches b) (tbl st')), st'))))"

text \<open>
  A number of JavaScript is an IEEE 754 double. The numbers of the dashboard are integers:
  \<^verbatim>\<open>parseInt\<close> of the decimal text of a \<^verbatim>\<open>bigint\<close> total, and sums and differences of
  those. An integer of magnitude up to \<open>2^53\<close> is a double; a larger one is rounded to the
  nearest integer with 53 significant bits, a tie to the one whose last bit is 0.
  \<open>ulp u a\<close> doubles the unit \<open>u\<close> until \<open>a div u\<close> has at most 53 bits, and \<open>js_number n\<close> is
  the double nearest to \<open>n\<close>. Magnitudes beyond the largest double do not arise: a
  \<^verbatim>\<open>bigint\<close> is below \<open>2^63\<close>.
\<close>

function ulp :: "int \<Rightarrow> int \<Rightarrow> int" where
  "ulp u a = (if u \<le> 0 \<or> a div u < 2 ^ 53 then u else ulp (2 * u) a)"
  by pat_completeness auto
termination
proof (relation "measure (\<lambda>(u, a). nat (a div u))")
  show "wf (measure (\<lambda>(u, a). nat (a div u)))" by simp
next
  fix u a :: int
  assume "\<not> (u \<le> 0 \<or> a div u < 2 ^ 53)"
  then have "0 < a div u" and "0 < u" by simp_all
  moreover have "a div (2 * u) = (a div u) div 2"
    using \<open>0 < u\<close> by (simp add: zdiv_zmult2_eq mult.commute)
  ultimately show "((2 * u, a), (u, a)) \<in> measure (\<lambda>(u, a). nat (a div u))" by simp
qed

declare ulp.simps [simp del]

definition js_number :: "int \<Rightarrow> int" where
  "js_number n =
     (let a = \<bar>n\<bar>;
          u = ulp 1 a;
          q = a div u;
          r = a mod u;
          m = (if 2 * r < u \<or> (2 * r = u \<and> even q) then q * u else (q + 1) * u)
      in sgn n * m)"

text \<open>\<^verbatim>\<open>x + y\<close> and \<^verbatim>\<open>x - y\<close> on two such numbers: the double nearest to the exact result.\<close>

definition js_add :: "int \<Rightarrow> int \<Rightarrow> int" where
  "js_add x y = js_number (x + y)"

definition js_sub :: "int \<Rightarrow> int \<Rightarrow> int" where
  "js_sub x y = js_number (x - y)"

text \<open>
  \<^verbatim>\<open>parseInt(rows[0].total)\<close>: the store hands a \<^verbatim>\<open>bigint\<close> over as its decimal text, and
  \<^verbatim>\<open>parseInt\<close> reads the text as a number.
\<close>

definition parseInt :: "int \<Rightarrow> int" where
  "parseInt n = js_number n"

text \<open>
  \<^verbatim>\<open>SELECT COALESCE(SUM(quantity), 0) as total FROM <table> <filter>\<close> followed by
  \<^verbatim>\<open>parseInt(rows[0].total)\<close>: no row sums to 0. The total of the store is exact; the
  number the handler holds is \<open>parseInt\<close> of it.
\<close>

definition select_total ::
  "env \<Rightarrow> (int \<Rightarrow> 'r \<Rightarrow> bool) \<Rightarrow> ('r \<Rightarrow> int) \<Rightarrow> (state \<Rightarrow> 'r list) \<Rightarrow> jsval option \<Rightarrow> int call" where
  "select_total ev matches qty tbl flt =
     await (select_where ev matches tbl flt)
       (\<lambda>rows. resolve (parseInt (sum_list (map qty rows))))"

section \<open>Responses\<close>

record metrics =
  openingBalance :: int
  closingBalance :: int
  netMovement :: int
  purchases :: int
  transferIn :: int
  transferOut :: int
  assigned :: int
  expended :: int

text \<open>
  The JSON of a response: \<open>Failed msg\<close> is \<^verbatim>\<open>{success: false, error: msg}\<close>, every other
  constructor a body with \<^verbatim>\<open>success: true\<close>. The \<^verbatim>\<open>count\<close> of a list response is the
  length of its list, the \<^verbatim>\<open>message\<close> of a created record is fixed by its constructor.
\<close>

datatype content =
    Failed string
  | MetricsData metrics
  | PurchaseList "purchase list"
  | TransferList "transfer list"
  | AssignmentList "assignment list"
  | BaseList "base_row list"
  | EquipmentList "equipment_row list"
  | AuditList "audit_log list"
  | PurchaseCreated purchase
  | TransferCreated transfer
  | AssignmentCreated assignment
  | LoggedIn string user string
  | ServerRunning

record response =
  status :: nat
  content :: content

definition reply :: "nat \<Rightarrow> content \<Rightarrow> response" where
  "reply code c = \<lparr>status = code, content = c\<rparr>"

text \<open>
  \<^verbatim>\<open>try { ... } catch (error) { logger.error(tag, error); res.status(500).json(...) }\<close>:
  a throw inside the body becomes the handler's 500 response, after the error is logged.
\<close>

definition try_catch :: "response call \<Rightarrow> string \<Rightarrow> string \<Rightarrow> state \<Rightarrow> response \<times> state" where
  "try_catch work tag msg st =
     (case work st of
        (Some r, st') \<Rightarrow> (r, st')
      | (None, st') \<Rightarrow> (reply 500 (Failed msg), logger Error tag st'))"

section \<open>GET /api/dashboard/metrics\<close>

text \<open>
  Lines 274 to 289 of \<^verbatim>\<open>server.js\<close>: the figures of the dashboard from the six totals,
  \<^verbatim>\<open>purchases + transferIn - transferOut\<close> and \<^verbatim>\<open>openingBalance + netMovement\<close> in the
  arithmetic of JavaScript.
\<close>

definition computeMetrics :: "int \<Rightarrow> int \<Rightarrow> int \<Rightarrow> int \<Rightarrow> int \<Rightarrow> int \<Rightarrow> metrics" where
  "computeMetrics opening bought tin tout active spent =
     (let net = js_sub (js_add bought tin) tout;
          closing = js_add opening net
      in \<lparr>openingBalance = opening, closingBalance = closing, netMovement = net,
          purchases = bought, transferIn = tin, transferOut = tout,
          assigned = active, expended = spent\<rparr>)"

text \<open>
  \<open>baseFilter\<close> with \<open>params\<close> (lines 207 to 222): \<open>Some p\<close> is \<^verbatim>\<open>WHERE base_id = $1\<close> with
  \<open>params = [p]\<close>, \<open>None\<close> the empty filter with no parameter.
\<close>

definition baseFilter :: "user \<Rightarrow> jsval \<Rightarrow> jsval option" where
  "baseFilter u base_id =
     (if u_role u = Commander then Some (user_base u)
      else if truthy base_id \<and> u_role u = Admin then Some base_id
      else None)"

text \<open>
  \<open>transfersInFilter\<close> and \<open>transfersOutFilter\<close> with their parameter lists (lines 239 to
  256): both take the same decision, on different columns.
\<close>

definition transfersFilter :: "user \<Rightarrow> jsval \<Rightarrow> jsval option" where
  "transfersFilter u base_id =
     (if u_role u = Commander then Some (user_base u)
      else if truthy base_id then Some base_id
      else None)"

definition active_assignments :: "state \<Rightarrow> assignment list" where
  "active_assignments st = filter (\<lambda>a. as_status a = ''active'') (assignments_table st)"

definition dashboard_body :: "env \<Rightarrow> user \<Rightarrow> (string \<Rightarrow> jsval) \<Rightarrow> response call" where
  "dashboard_body ev u query =
     (let base_id = query ''base_id'';
          bf = baseFilter u base_id;
          tf = transfersFilter u base_id
      in
        await (select_total ev (\<lambda>b r. a_base_id r = b) a_quantity assets_table bf) (\<lambda>opening.
        await (select_total ev (\<lambda>b r. p_base_id r = b) p_quantity purchases_table bf) (\<lambda>bought.
        await (select_total ev (\<lambda>b r. t_to_base_id r = b) t_quantity transfers_table tf) (\<lambda>tin.
        await (select_total ev (\<lambda>b r. t_from_base_id r = b) t_quantity transfers_table tf) (\<lambda>tout.
        await (select_total ev (\<lambda>b r. as_base_id r = b) (\<lambda>_. 1) active_assignments bf) (\<lambda>active.
        await (select_total ev (\<lambda>b r. e_base_id r = b) e_quantity expenditures_table bf) (\<lambda>spent.
        resolve (reply 200
          (MetricsData (computeMetrics opening bought tin tout active spent))))))))))"

definition get_dashboard_metrics ::
  "env \<Rightarrow> user \<Rightarrow> (string \<Rightarrow> jsval) \<Rightarrow> state \<Rightarrow> response \<times> state" where
  "get_dashboard_metrics ev u query =
     try_catch (dashboard_body ev u query)
       ''Dashboard metrics error:'' ''Failed to fetch dashboard metrics''"

section \<open>Rows written by the program\<close>

text \<open>A column that takes the request's value as it is: \<^verbatim>\<open>undefined\<close> arrives as NULL.\<close>

definition stored :: "jsval \<Rightarrow> jsval" where
  "stored v = (if v = JUndefined then JNull else v)"

text \<open>
  An INSERT with \<^verbatim>\<open>RETURNING *\<close>. A parameter the store cannot read fails the statement
  before it runs. A statement that runs draws the id from the table's sequence, and then
  fails on a NULL in a NOT NULL column, on a CHECK of \<^verbatim>\<open>schema.sql\<close>
  (\<^verbatim>\<open>quantity > 0\<close>, \<^verbatim>\<open>from_base_id != to_base_id\<close>), on a reference to a row that does not
  exist, or on an id already taken; otherwise the row joins the table and is returned.
\<close>

definition base_ids :: "state \<Rightarrow> int set" where
  "base_ids st = set (map b_id (bases_table st))"

definition equipment_ids :: "state \<Rightarrow> int set" where
  "equipment_ids st = set (map eq_id (equipment_types_table st))"

definition user_ids :: "state \<Rightarrow> int set" where
  "user_ids st = set (map ur_id (users_table st))"

definition insert_purchase ::
  "env \<Rightarrow> jsval \<Rightarrow> jsval \<Rightarrow> jsval \<Rightarrow> jsval \<Rightarrow> jsval \<Rightarrow> jsval \<Rightarrow> jsval \<Rightarrow> int \<Rightarrow> purchase call" where
  "insert_purchase ev base_id equipment_type_id quantity cost purchase_date supplier notes uid st =
     (case store_call st of
        (False, st1) \<Rightarrow> (None, st1)
      | (True, st1) \<Rightarrow>
          (let bs = [bind_int ev base_id, bind_int ev equipment_type_id, bind_int ev quantity]
           in if BadParam \<in> set bs then (None, st1)
              else
                (let new_id = purchases_seq st1;
                     st2 = st1\<lparr>purchases_seq := new_id + 1\<rparr>
                 in case bs of
                      [SqlInt b, SqlInt e, SqlInt q] \<Rightarrow>
                        if 0 < q \<and> b \<in> base_ids st2 \<and> e \<in> equipment_ids st2
                           \<and> uid \<in> user_ids st2
                           \<and> new_id \<notin> set (map p_id (purchases_table st2))
                        then
                          (let row = \<lparr>p_id = new_id, p_base_id = b, p_equipment_type_id = e,
                                      p_quantity = q, p_cost = stored cost,
                                      p_purchase_date = stored purchase_date,
                                      p_supplier = stored supplier,
                                      p_notes = stored notes, p_created_by = Some uid\<rparr>
                           in (Some row, st2\<lparr>purchases_table := purchases_table st2 @ [row]\<rparr>))
                        else (None, st2)
                    | _ \<Rightarrow> (None, st2))))"

definition insert_transfer ::
  "env \<Rightarrow> jsval \<Rightarrow> jsval \<Rightarrow> jsval \<Rightarrow> jsval \<Rightarrow> jsval \<Rightarrow> jsval \<Rightarrow> int \<Rightarrow> transfer call" where
  "insert_transfer ev from_base_id to_base_id equipment_type_id quantity transfer_date notes uid st =
     (case store_call st of
        (False, st1) \<Rightarrow> (None, st1)
      | (True, st1) \<Rightarrow>
          (let bs = [bind_int ev from_base_id, bind_int ev to_base_id,
                     bind_int ev equipment_type_id, bind_int ev quantity]
           in if BadParam \<in> set bs then (None, st1)
              else
                (let new_id = transfers_seq st1;
                     st2 = st1\<lparr>transfers_seq := new_id + 1\<rparr>
                 in case bs of
                      [SqlInt f, SqlInt t, SqlInt e, SqlInt q] \<Rightarrow>
                        if 0 < q \<and> f \<noteq> t \<and> f \<in> base_ids st2 \<and> t \<in> base_ids st2
                           \<and> e \<in> equipment_ids st2 \<and> uid \<in> user_ids st2
                           \<and> new_id \<notin> set (map t_id (transfers_table st2))
                        then
                          (let row = \<lparr>t_id = new_id, t_from_base_id = f, t_to_base_id = t,
                                      t_equipment_type_id = e, t_quantity = q,
                                      t_transfer_date = stored transfer_date,
                                      t_status = ''pending'',
                                      t_notes = stored notes, t_created_by = Some uid\<rparr>
                           in (Some row, st2\<lparr>transfers_table := transfers_table st2 @ [row]\<rparr>))
                        else (None, st2)
                    | _ \<Rightarrow> (None, st2))))"

definition insert_assignment ::
  "env \<Rightarrow> jsval \<Rightarrow> jsval \<Rightarrow> jsval \<Rightarrow> jsval \<Rightarrow> jsval \<Rightarrow> jsval \<Rightarrow> int \<Rightarrow> assignment call" where
  "insert_assignment ev base_id equipment_type_id personnel_id serial_number assignment_date notes uid st =
     (case store_call st of
        (False, st1) \<Rightarrow> (None, st1)
      | (True, st1) \<Rightarrow>
          (let bs = [bind_int ev base_id, bind_int ev equipment_type_id, bind_int ev personnel_id]
           in if BadParam \<in> set bs then (None, st1)
              else
                (let new_id = assignments_seq st1;
                     st2 = st1\<lparr>assignments_seq := new_id + 1\<rparr>
                 in case bs of
                      [SqlInt b, SqlInt e, SqlInt p] \<Rightarrow>
                        if b \<in> base_ids st2 \<and> e \<in> equipment_ids st2
                           \<and> p \<in> set (personnel_table st2) \<and> uid \<in> user_ids st2
                           \<and> new_id \<notin> set (map as_id (assignments_table st2))
                        then
                          (let row = \<lparr>as_id = new_id, as_base_id = b, as_equipment_type_id = e,
                                      as_personnel_id = p, as_serial_number = stored serial_number,
                                      as_assignment_date = stored assignment_date,
                                      as_status = ''active'', as_notes = stored notes,
                                      as_created_by = Some uid\<rparr>
                           in (Some row, st2\<lparr>assignments_table := assignments_table st2 @ [row]\<rparr>))
                        else (None, st2)
                    | _ \<Rightarrow> (None, st2))))"

text \<open>
  The INSERT of \<open>logAudit\<close>. Its parameters are ids the program read from the store and
  constant texts; \<open>details\<close> stands for the object that is serialised.
\<close>

definition insert_audit_log ::
  "int \<Rightarrow> string \<Rightarrow> string \<Rightarrow> int \<Rightarrow> (string \<times> jsval) list \<Rightarrow> audit_log call" where
  "insert_audit_log userId action entityType entityId details st =
     (case store_call st of
        (False, st1) \<Rightarrow> (None, st1)
      | (True, st1) \<Rightarrow>
          (let new_id = audit_logs_seq st1;
               st2 = st1\<lparr>audit_logs_seq := new_id + 1\<rparr>
           in if userId \<in> user_ids st2 \<and> new_id \<notin> set (map al_id (audit_logs_table st2))
              then
                (let row = \<lparr>al_id = new_id, al_user_id = Some userId, al_action = action,
                            al_entity_type = entityType, al_entity_id = Some entityId,
                            al_details = details\<rparr>
                 in (Some row, st2\<lparr>audit_logs_table := audit_logs_table st2 @ [row]\<rparr>))
              else (None, st2)))"

section \<open>logAudit\<close>

text \<open>
  The function awaits the INSERT inside its own \<^verbatim>\<open>try\<close>: a failure is logged at level
  \<open>Error\<close> and goes no further, so the function always returns.
\<close>

definition logAudit ::
  "int \<Rightarrow> string \<Rightarrow> string \<Rightarrow> int \<Rightarrow> (string \<times> jsval) list \<Rightarrow> state \<Rightarrow> state" where
  "logAudit userId action entityType entityId details st =
     (case insert_audit_log userId action entityType entityId details st of
        (Some _, st') \<Rightarrow> logger Info ''Audit Log:'' st'
      | (None, st') \<Rightarrow> logger Error ''Failed to create audit log:'' st')"

section \<open>The middleware\<close>

text \<open>\<^verbatim>\<open>String.prototype.split\<close> at a one-character separator.\<close>

fun js_split :: "char \<Rightarrow> string \<Rightarrow> string list" where
  "js_split c [] = [[]]"
| "js_split c (x # xs) =
     (if x = c then [] # js_split c xs
      else (case js_split c xs of
              [] \<Rightarrow> [[x]]
            | w # ws \<Rightarrow> (x # w) # ws))"

text \<open>
  \<^verbatim>\<open>authHeader && authHeader.split(' ')[1]\<close>, for the Authorization header of the request
  (\<open>None\<close> when the request has none): \<open>None\<close> is \<^verbatim>\<open>undefined\<close>.
\<close>

definition token_of :: "string option \<Rightarrow> string option" where
  "token_of authHeader =
     (case authHeader of
        None \<Rightarrow> None
      | Some h \<Rightarrow>
          if h = [] then Some []
          else (case js_split (CHR '' '') h of
                  _ # t # _ \<Rightarrow> Some t
                | _ \<Rightarrow> None))"

record request =
  authorization :: "string option"
  query :: "string \<Rightarrow> jsval"
  body :: "string \<Rightarrow> jsval"

text \<open>
  \<open>authenticateToken\<close> ends the request with 401 when there is no token and with 403 when
  \<^verbatim>\<open>jwt.verify\<close> reports an error; otherwise it sets \<^verbatim>\<open>req.user\<close> and calls \<open>next\<close>.
\<close>

definition authenticateToken ::
  "env \<Rightarrow> request \<Rightarrow> (user \<Rightarrow> state \<Rightarrow> response \<times> state) \<Rightarrow> state \<Rightarrow> response \<times> state" where
  "authenticateToken ev req next st =
     (case token_of (authorization req) of
        None \<Rightarrow> (reply 401 (Failed ''Access token required. Please login to continue.''), st)
      | Some token \<Rightarrow>
          if token = []
          then (reply 401 (Failed ''Access token required. Please login to continue.''), st)
          else (case jwt_verify ev token of
                  None \<Rightarrow>
                    (reply 403 (Failed ''Invalid or expired token. Please login again.''), st)
                | Some u \<Rightarrow> next u st))"

text \<open>
  \<open>checkRole\<close> runs after \<open>authenticateToken\<close>, so \<^verbatim>\<open>req.user\<close> is set; it ends the request
  with 403 and a warning in the log when the user's role is not among the allowed ones.
\<close>

definition checkRole ::
  "role list \<Rightarrow> user \<Rightarrow> (state \<Rightarrow> response \<times> state) \<Rightarrow> state \<Rightarrow> response \<times> state" where
  "checkRole allowedRoles u next st =
     (if u_role u \<notin> set allowedRoles
      then (reply 403
              (Failed ''Access denied. You do not have permission to perform this action.''),
            logger Warn ''Access denied for user'' st)
      else next st)"

section \<open>POST /api/purchases, /api/transfers, /api/assignments\<close>

definition post_purchases :: "env \<Rightarrow> user \<Rightarrow> (string \<Rightarrow> jsval) \<Rightarrow> state \<Rightarrow> response \<times> state" where
  "post_purchases ev u payload =
     try_catch
       (let base_id = payload ''base_id'';
            equipment_type_id = payload ''equipment_type_id'';
            quantity = payload ''quantity'';
            cost = payload ''cost'';
            purchase_date = payload ''purchase_date'';
            supplier = payload ''supplier'';
            notes = payload ''notes''
        in
          if \<not> truthy base_id \<or> \<not> truthy equipment_type_id \<or> \<not> truthy quantity
             \<or> \<not> truthy purchase_date
          then resolve (reply 400
                 (Failed ''Required fields: base_id, equipment_type_id, quantity, purchase_date''))
          else if u_role u = Commander \<and> \<not> strict_eq base_id (user_base u)
          then resolve (reply 403
                 (Failed ''You can only create purchases for your assigned base''))
          else
            await (insert_purchase ev base_id equipment_type_id quantity cost purchase_date
                     supplier notes (u_id u)) (\<lambda>purchase st.
            resolve (reply 201 (PurchaseCreated purchase))
              (logger Info ''New purchase created:''
                (logAudit (u_id u) ''CREATE'' ''PURCHASE'' (p_id purchase)
                   [(''base_id'', base_id), (''equipment_type_id'', equipment_type_id),
                    (''quantity'', quantity), (''cost'', cost)] st))))
       ''Create purchase error:'' ''Failed to create purchase record''"

definition post_transfers :: "env \<Rightarrow> user \<Rightarrow> (string \<Rightarrow> jsval) \<Rightarrow> state \<Rightarrow> response \<times> state" where
  "post_transfers ev u payload =
     try_catch
       (let from_base_id = payload ''from_base_id'';
            to_base_id = payload ''to_base_id'';
            equipment_type_id = payload ''equipment_type_id'';
            quantity = payload ''quantity'';
            transfer_date = payload ''transfer_date'';
            notes = payload ''notes''
        in
          if \<not> truthy from_base_id \<or> \<not> truthy to_base_id \<or> \<not> truthy equipment_type_id
             \<or> \<not> truthy quantity \<or> \<not> truthy transfer_date
          then resolve (reply 400
                 (Failed ''Required fields: from_base_id, to_base_id, equipment_type_id, quantity, transfer_date''))
          else if strict_eq from_base_id to_base_id
          then resolve (reply 400 (Failed ''Cannot transfer to the same base''))
          else if u_role u = Commander \<and> \<not> strict_eq from_base_id (user_base u)
                  \<and> \<not> strict_eq to_base_id (user_base u)
          then resolve (reply 403
                 (Failed ''You can only create transfers involving your assigned base''))
          else
            await (insert_transfer ev from_base_id to_base_id equipment_type_id quantity
                     transfer_date notes (u_id u)) (\<lambda>transfer st.
            resolve (reply 201 (TransferCreated transfer))
              (logger Info ''New transfer created:''
                (logAudit (u_id u) ''CREATE'' ''TRANSFER'' (t_id transfer)
                   [(''from_base_id'', from_base_id), (''to_base_id'', to_base_id),
                    (''equipment_type_id'', equipment_type_id), (''quantity'', quantity)] st))))
       ''Create transfer error:'' ''Failed to create transfer record''"

definition post_assignments :: "env \<Rightarrow> user \<Rightarrow> (string \<Rightarrow> jsval) \<Rightarrow> state \<Rightarrow> response \<times> state" where
  "post_assignments ev u payload =
     try_catch
       (let base_id = payload ''base_id'';
            equipment_type_id = payload ''equipment_type_id'';
            personnel_id = payload ''personnel_id'';
            serial_number = payload ''serial_number'';
            assignment_date = payload ''assignment_date'';
            notes = payload ''notes''
        in
          if \<not> truthy base_id \<or> \<not> truthy equipment_type_id \<or> \<not> truthy personnel_id
             \<or> \<not> truthy assignment_date
          then resolve (reply 400
                 (Failed ''Required fields: base_id, equipment_type_id, personnel_id, assignment_date''))
          else if u_role u = Commander \<and> \<not> strict_eq base_id (user_base u)
          then resolve (reply 403
                 (Failed ''You can only create assignments for your assigned base''))
          else
            await (insert_assignment ev base_id equipment_type_id personnel_id serial_number
                     assignment_date notes (u_id u)) (\<lambda>assignment st.
            resolve (reply 201 (AssignmentCreated assignment))
              (logger Info ''New assignment created:''
                (logAudit (u_id u) ''CREATE'' ''ASSIGNMENT'' (as_id assignment)
                   [(''base_id'', base_id), (''equipment_type_id'', equipment_type_id),
                    (''personnel_id'', personnel_id), (''serial_number'', serial_number)] st))))
       ''Create assignment error:'' ''Failed to create assignment record''"

section \<open>Required fields\<close>

text \<open>
  The presence checks of the three POST handlers, negated: every field that the handler
  requires is truthy.
\<close>

definition purchase_fields :: "(string \<Rightarrow> jsval) \<Rightarrow> bool" where
  "purchase_fields payload =
     (truthy (payload ''base_id'') \<and> truthy (payload ''equipment_type_id'')
      \<and> truthy (payload ''quantity'') \<and> truthy (payload ''purchase_date''))"

definition transfer_fields :: "(string \<Rightarrow> jsval) \<Rightarrow> bool" where
  "transfer_fields payload =
     (truthy (payload ''from_base_id'') \<and> truthy (payload ''to_base_id'')
      \<and> truthy (payload ''equipment_type_id'') \<and> truthy (payload ''quantity'')
      \<and> truthy (payload ''transfer_date''))"

definition assignment_fields :: "(string \<Rightarrow> jsval) \<Rightarrow> bool" where
  "assignment_fields payload =
     (truthy (payload ''base_id'') \<and> truthy (payload ''equipment_type_id'')
      \<and> truthy (payload ''personnel_id'') \<and> truthy (payload ''assignment_date''))"


section \<open>The list endpoints\<close>

text \<open>
  The SELECT of a list endpoint joins its table with \<^verbatim>\<open>bases\<close>, \<^verbatim>\<open>equipment_types\<close> and
  \<^verbatim>\<open>personnel\<close> (inner joins: a row whose partner is missing is dropped) and adds display
  names from them, which the model leaves out. None of the handlers reads the query string.
\<close>

definition joined_purchases :: "state \<Rightarrow> purchase list" where
  "joined_purchases st =
     filter (\<lambda>p. p_base_id p \<in> base_ids st \<and> p_equipment_type_id p \<in> equipment_ids st)
       (purchases_table st)"

definition joined_transfers :: "state \<Rightarrow> transfer list" where
  "joined_transfers st =
     filter (\<lambda>t. t_from_base_id t \<in> base_ids st \<and> t_to_base_id t \<in> base_ids st
                 \<and> t_equipment_type_id t \<in> equipment_ids st)
       (transfers_table st)"

definition joined_assignments :: "state \<Rightarrow> assignment list" where
  "joined_assignments st =
     filter (\<lambda>a. as_equipment_type_id a \<in> equipment_ids st \<and> as_base_id a \<in> base_ids st
                 \<and> as_personnel_id a \<in> set (personnel_table st))
       (assignments_table st)"

text \<open>The role-based filter of the three handlers: a WHERE clause for commanders only.\<close>

definition role_filter :: "user \<Rightarrow> jsval option" where
  "role_filter u = (if u_role u = Commander then Some (user_base u) else None)"

definition get_purchases :: "env \<Rightarrow> user \<Rightarrow> state \<Rightarrow> response \<times> state" where
  "get_purchases ev u =
     try_catch
       (await (select_where ev (\<lambda>b p. p_base_id p = b) joined_purchases (role_filter u))
          (\<lambda>rows. resolve (reply 200 (PurchaseList rows))))
       ''Get purchases error:'' ''Failed to fetch purchase records''"

definition get_transfers :: "env \<Rightarrow> user \<Rightarrow> state \<Rightarrow> response \<times> state" where
  "get_transfers ev u =
     try_catch
       (await (select_where ev (\<lambda>b t. t_from_base_id t = b \<or> t_to_base_id t = b)
                 joined_transfers (role_filter u))
          (\<lambda>rows. resolve (reply 200 (TransferList rows))))
       ''Get transfers error:'' ''Failed to fetch transfer records''"

definition get_assignments :: "env \<Rightarrow> user \<Rightarrow> state \<Rightarrow> response \<times> state" where
  "get_assignments ev u =
     try_catch
       (await (select_where ev (\<lambda>b a. as_base_id a = b) joined_assignments (role_filter u))
          (\<lambda>rows. resolve (reply 200 (AssignmentList rows))))
       ''Get assignments error:'' ''Failed to fetch assignment records''"

definition get_bases :: "env \<Rightarrow> state \<Rightarrow> response \<times> state" where
  "get_bases ev =
     try_catch
       (await (select_where ev (\<lambda>b r. True) bases_table None)
          (\<lambda>rows. resolve (reply 200 (BaseList rows))))
       ''Get bases error:'' ''Failed to fetch bases''"

definition get_equipment_types :: "env \<Rightarrow> state \<Rightarrow> response \<times> state" where
  "get_equipment_types ev =
     try_catch
       (await (select_where ev (\<lambda>b r. True) equipment_types_table None)
          (\<lambda>rows. resolve (reply 200 (EquipmentList rows))))
       ''Get equipment types error:'' ''Failed to fetch equipment types''"

text \<open>
  \<^verbatim>\<open>GET /api/audit-logs\<close>: \<^verbatim>\<open>const { limit = 100, offset = 0 } = req.query\<close>, then the
  entries joined with their users, newest first (the table is in order of insertion), cut
  by \<^verbatim>\<open>LIMIT $1 OFFSET $2\<close>. The store refuses a negative LIMIT or OFFSET; a NULL LIMIT is
  no limit and a NULL OFFSET is 0.
\<close>

definition with_default :: "jsval \<Rightarrow> jsval \<Rightarrow> jsval" where
  "with_default v d = (if v = JUndefined then d else v)"

definition select_audit_logs :: "env \<Rightarrow> jsval \<Rightarrow> jsval \<Rightarrow> audit_log list call" where
  "select_audit_logs ev limit offset st =
     (case store_call st of
        (False, st') \<Rightarrow> (None, st')
      | (True, st') \<Rightarrow>
          (let rows = rev (filter (\<lambda>l. case al_user_id l of
                                          None \<Rightarrow> False
                                        | Some i \<Rightarrow> i \<in> user_ids st')
                             (audit_logs_table st'))
           in case (bind_num in_int8 ev limit, bind_num in_int8 ev offset) of
                (BadParam, _) \<Rightarrow> (None, st')
              | (_, BadParam) \<Rightarrow> (None, st')
              | (lim, off) \<Rightarrow>
                  (let n = (case off of SqlInt k \<Rightarrow> k | _ \<Rightarrow> 0)
                   in if n < 0 then (None, st')
                      else (case lim of
                              SqlInt m \<Rightarrow>
                                if m < 0 then (None, st')
                                else (Some (take (nat m) (drop (nat n) rows)), st')
                            | _ \<Rightarrow> (Some (drop (nat n) rows), st')))))"

definition get_audit_logs :: "env \<Rightarrow> (string \<Rightarrow> jsval) \<Rightarrow> state \<Rightarrow> response \<times> state" where
  "get_audit_logs ev q =
     try_catch
       (await (select_audit_logs ev (with_default (q ''limit'') (JNum 100))
                 (with_default (q ''offset'') (JNum 0)))
          (\<lambda>rows. resolve (reply 200 (AuditList rows))))
       ''Get audit logs error:'' ''Failed to fetch audit logs''"

section \<open>POST /api/auth/login and GET /api/health\<close>

text \<open>
  \<^verbatim>\<open>SELECT * FROM users WHERE email = $1 AND is_active = true\<close>, and the UPDATE of
  \<^verbatim>\<open>last_login\<close>, a timestamp the model does not keep: the call is made and may fail.
\<close>

definition select_user :: "env \<Rightarrow> jsval \<Rightarrow> user_row list call" where
  "select_user ev email st =
     (case store_call st of
        (False, st') \<Rightarrow> (None, st')
      | (True, st') \<Rightarrow>
          (Some (filter (\<lambda>r. ur_email r = bind_text ev email \<and> ur_is_active r)
                   (users_table st')), st'))"

definition update_last_login :: "int \<Rightarrow> unit call" where
  "update_last_login uid st =
     (case store_call st of
        (False, st') \<Rightarrow> (None, st')
      | (True, st') \<Rightarrow> (Some (), st'))"

text \<open>\<^verbatim>\<open>bcrypt.compare\<close> rejects an argument that is not a string.\<close>

definition compare_password :: "env \<Rightarrow> jsval \<Rightarrow> string \<Rightarrow> bool call" where
  "compare_password ev password hash st =
     (case password of
        JStr pw \<Rightarrow> (Some (bcrypt_compare ev pw hash), st)
      | _ \<Rightarrow> (None, st))"

definition post_login :: "env \<Rightarrow> (string \<Rightarrow> jsval) \<Rightarrow> state \<Rightarrow> response \<times> state" where
  "post_login ev payload =
     try_catch
       (let email = payload ''email'';
            password = payload ''password''
        in
          if \<not> truthy email \<or> \<not> truthy password
          then resolve (reply 400 (Failed ''Email and password are required''))
          else
            await (select_user ev email) (\<lambda>rows.
              case rows of
                [] \<Rightarrow> (\<lambda>st. resolve (reply 401 (Failed ''Invalid email or password''))
                                (logger Warn ''Failed login attempt for email:'' st))
              | row # _ \<Rightarrow>
                  await (compare_password ev password (ur_password_hash row)) (\<lambda>validPassword.
                    if \<not> validPassword
                    then (\<lambda>st. resolve (reply 401 (Failed ''Invalid email or password''))
                                  (logger Warn ''Invalid password attempt for user:'' st))
                    else
                      (let claims = \<lparr>u_id = ur_id row, u_email = ur_email row,
                                       u_role = ur_role row, u_base_id = ur_base_id row\<rparr>;
                           token = jwt_sign ev claims
                       in await (update_last_login (ur_id row)) (\<lambda>_ st.
                            resolve (reply 200 (LoggedIn token claims (ur_name row)))
                              (logger Info ''Successful login:''
                                 (logAudit (ur_id row) ''LOGIN'' ''USER'' (ur_id row)
                                    [(''email'', email)] st)))))))
       ''Login error:'' ''Server error during authentication. Please try again.''"

text \<open>The health check answers without a token and without the store.\<close>

definition get_health :: "state \<Rightarrow> response \<times> state" where
  "get_health st = (reply 200 ServerRunning, st)"

section \<open>The routes\<close>

text \<open>
  One constructor for each route that \<^verbatim>\<open>server.js\<close> registers. \<open>handle\<close> is what a route
  runs once \<^verbatim>\<open>req.user\<close> is set: its \<open>checkRole\<close>, where it has one, and its handler
  (for the two routes without a token, the handler alone). \<open>route\<close> is the route as
  registered. The middleware that \<^verbatim>\<open>app.use\<close> puts before every
  route (CORS, the body parsers, the request log) belongs to the HTTP layer and is not
  modelled: a request here is one that has reached its route.
\<close>

datatype endpoint =
    PostLogin
  | GetDashboardMetrics
  | GetPurchases
  | PostPurchases
  | GetTransfers
  | PostTransfers
  | GetAssignments
  | PostAssignments
  | GetBases
  | GetEquipmentTypes
  | GetAuditLogs
  | GetHealth

fun handle :: "env \<Rightarrow> endpoint \<Rightarrow> user \<Rightarrow> request \<Rightarrow> state \<Rightarrow> response \<times> state" where
  "handle ev GetDashboardMetrics u req = get_dashboard_metrics ev u (query req)"
| "handle ev GetPurchases u req = get_purchases ev u"
| "handle ev PostPurchases u req =
     checkRole [Admin, Commander] u (post_purchases ev u (body req))"
| "handle ev GetTransfers u req = get_transfers ev u"
| "handle ev PostTransfers u req =
     checkRole [Admin, Commander, Logistics] u (post_transfers ev u (body req))"
| "handle ev GetAssignments u req = get_assignments ev u"
| "handle ev PostAssignments u req =
     checkRole [Admin, Commander] u (post_assignments ev u (body req))"
| "handle ev GetBases u req = get_bases ev"
| "handle ev GetEquipmentTypes u req = get_equipment_types ev"
| "handle ev GetAuditLogs u req = checkRole [Admin] u (get_audit_logs ev (query req))"
| "handle ev PostLogin u req = post_login ev (body req)"
| "handle ev GetHealth u req = get_health"

definition route :: "env \<Rightarrow> endpoint \<Rightarrow> request \<Rightarrow> state \<Rightarrow> response \<times> state" where
  "route ev ep req =
     (if ep = PostLogin then post_login ev (body req)
      else if ep = GetHealth then get_health
      else authenticateToken ev req (\<lambda>u. handle ev ep u req))"

section \<open>Requests in sequence\<close>

text \<open>
  The server over time: the requests that reach it, one after the other. (A handler makes
  single-statement store calls; interleavings of concurrent handlers are not modelled.)
\<close>

fun serve :: "env \<Rightarrow> (endpoint \<times> request) list \<Rightarrow> state \<Rightarrow> state" where
  "serve ev [] st = st"
| "serve ev ((ep, req) # rest) st = serve ev rest (snd (route ev ep req st))"

section \<open>Relations between states\<close>

text \<open>
  \<open>same_data st st'\<close>: the two states hold the same tables and sequences; they differ at most
  in the count of store calls, in the schedule of faults that is left and in the operational
  log.
\<close>

definition same_data :: "state \<Rightarrow> state \<Rightarrow> bool" where
  "same_data st st' =
     (st'\<lparr>store_calls := 0, faults := [], oplog := []\<rparr> =
      st\<lparr>store_calls := 0, faults := [], oplog := []\<rparr>)"

section \<open>A sample installation\<close>

text \<open>
  Concrete users, collaborators and tables on which the theorems below are evaluated. Base 1
  (Alpha) holds assets of 250 + 100 + 300 + 15 = 665, has purchases of 50, receives 100 and
  sends 30.
\<close>

definition admin_user :: user where
  "admin_user = \<lparr>u_id = 1, u_email = ''admin@military.gov'', u_role = Admin, u_base_id = None\<rparr>"

definition alpha_commander :: user where
  "alpha_commander =
     \<lparr>u_id = 2, u_email = ''commander.alpha@military.gov'', u_role = Commander,
      u_base_id = Some 1\<rparr>"

definition logistics_user :: user where
  "logistics_user =
     \<lparr>u_id = 4, u_email = ''logistics@military.gov'', u_role = Logistics, u_base_id = Some 4\<rparr>"

definition sample_env :: env where
  "sample_env =
     \<lparr>jwt_verify = map_of [(''token-admin'', admin_user), (''token-alpha'', alpha_commander),
                              (''token-logistics'', logistics_user)],
      jwt_sign = (\<lambda>u. ''token-'' @ u_email u),
      bcrypt_compare = (\<lambda>pw hash. hash = ''hash-of-'' @ pw),
      int_in = map_of [(''1'', 1), (''2'', 2), (''3'', 3), (''4'', 4)],
      text_out = (\<lambda>v. [])\<rparr>"

definition sample_user_row :: "int \<Rightarrow> string \<Rightarrow> role \<Rightarrow> int option \<Rightarrow> user_row" where
  "sample_user_row i mail r b =
     \<lparr>ur_id = i, ur_email = mail, ur_password_hash = ''hash-of-demo123'', ur_name = [],
      ur_role = r, ur_base_id = b, ur_is_active = True\<rparr>"

definition sample_purchase :: "int \<Rightarrow> int \<Rightarrow> int \<Rightarrow> int \<Rightarrow> purchase" where
  "sample_purchase i b e q =
     \<lparr>p_id = i, p_base_id = b, p_equipment_type_id = e, p_quantity = q, p_cost = JNull,
      p_purchase_date = JStr ''2024-01-15'', p_supplier = JNull, p_notes = JNull,
      p_created_by = Some 1\<rparr>"

definition sample_transfer :: "int \<Rightarrow> int \<Rightarrow> int \<Rightarrow> int \<Rightarrow> int \<Rightarrow> transfer" where
  "sample_transfer i f t e q =
     \<lparr>t_id = i, t_from_base_id = f, t_to_base_id = t, t_equipment_type_id = e,
      t_quantity = q, t_transfer_date = JStr ''2024-01-25'', t_status = ''completed'',
      t_notes = JNull, t_created_by = Some 1\<rparr>"

definition sample_assignment :: "int \<Rightarrow> int \<Rightarrow> int \<Rightarrow> int \<Rightarrow> string \<Rightarrow> assignment" where
  "sample_assignment i b e p s =
     \<lparr>as_id = i, as_base_id = b, as_equipment_type_id = e, as_personnel_id = p,
      as_serial_number = JNull, as_assignment_date = JStr ''2024-01-20'', as_status = s,
      as_notes = JNull, as_created_by = Some 2\<rparr>"

definition sample_base :: "int \<Rightarrow> string \<Rightarrow> base_row" where
  "sample_base i n = \<lparr>b_id = i, b_name = n, b_location = [], b_commander_name = []\<rparr>"

definition sample_equipment :: "int \<Rightarrow> string \<Rightarrow> string \<Rightarrow> equipment_row" where
  "sample_equipment i n c =
     \<lparr>eq_id = i, eq_name = n, eq_category = c, eq_description = [],
      eq_unit_of_measure = ''unit''\<rparr>"

definition sample_state :: state where
  "sample_state =
     \<lparr>bases_table =
        [sample_base 1 ''Base Alpha'', sample_base 2 ''Base Beta'',
         sample_base 3 ''Base Charlie'', sample_base 4 ''Central Depot''],
      users_table =
        [sample_user_row 1 ''admin@military.gov'' Admin None,
         sample_user_row 2 ''commander.alpha@military.gov'' Commander (Some 1),
         sample_user_row 4 ''logistics@military.gov'' Logistics (Some 4)],
      equipment_types_table =
        [sample_equipment 1 ''M4 Rifle'' ''Weapons'', sample_equipment 5 ''Humvee'' ''Vehicles''],
      personnel_table = [1, 2, 3],
      assets_table =
        [\<lparr>a_base_id = 1, a_equipment_type_id = 1, a_quantity = 250\<rparr>,
         \<lparr>a_base_id = 1, a_equipment_type_id = 2, a_quantity = 100\<rparr>,
         \<lparr>a_base_id = 1, a_equipment_type_id = 3, a_quantity = 300\<rparr>,
         \<lparr>a_base_id = 1, a_equipment_type_id = 5, a_quantity = 15\<rparr>,
         \<lparr>a_base_id = 2, a_equipment_type_id = 1, a_quantity = 200\<rparr>,
         \<lparr>a_base_id = 4, a_equipment_type_id = 1, a_quantity = 500\<rparr>],
      purchases_table = [sample_purchase 1 1 1 50, sample_purchase 2 2 5 5],
      transfers_table =
        [sample_transfer 1 1 2 1 30, sample_transfer 2 4 1 1 100, sample_transfer 3 2 3 5 3],
      assignments_table =
        [sample_assignment 1 1 1 1 ''active'', sample_assignment 2 2 1 3 ''active'',
         sample_assignment 3 1 5 2 ''returned''],
      expenditures_table =
        [\<lparr>e_base_id = 1, e_equipment_type_id = 1, e_quantity = 20\<rparr>,
         \<lparr>e_base_id = 2, e_equipment_type_id = 1, e_quantity = 7\<rparr>],
      audit_logs_table = [],
      purchases_seq = 3,
      transfers_seq = 4,
      assignments_seq = 4,
      audit_logs_seq = 1,
      faults = [],
      store_calls = 0,
      oplog = []\<rparr>"

definition no_fields :: "string \<Rightarrow> jsval" where
  "no_fields = (\<lambda>_. JUndefined)"

definition sample_request :: "string \<Rightarrow> (string \<Rightarrow> jsval) \<Rightarrow> (string \<Rightarrow> jsval) \<Rightarrow> request" where
  "sample_request token q payload =
     \<lparr>authorization = Some (''Bearer '' @ token), query = q, body = payload\<rparr>"

text \<open>Payloads for the sample installation.\<close>

definition sample_purchase_payload :: "jsval \<Rightarrow> string \<Rightarrow> jsval" where
  "sample_purchase_payload b =
     no_fields(''base_id'' := b, ''equipment_type_id'' := JNum 1, ''quantity'' := JStr ''4'',
               ''purchase_date'' := JStr ''2024-05-01'')"

definition sample_transfer_payload :: "jsval \<Rightarrow> jsval \<Rightarrow> string \<Rightarrow> jsval" where
  "sample_transfer_payload f t =
     no_fields(''from_base_id'' := f, ''to_base_id'' := t, ''equipment_type_id'' := JNum 1,
               ''quantity'' := JNum 5, ''transfer_date'' := JStr ''2024-05-01'')"

definition sample_assignment_payload :: "jsval \<Rightarrow> string \<Rightarrow> jsval" where
  "sample_assignment_payload b =
     no_fields(''base_id'' := b, ''equipment_type_id'' := JNum 1, ''personnel_id'' := JNum 2,
               ''assignment_date'' := JStr ''2024-05-02'')"

section \<open>Facts about the building blocks\<close>

subsection \<open>The dashboard\<close>

lemmas sample_defs =
  admin_user_def alpha_commander_def logistics_user_def sample_env_def sample_user_row_def
  sample_purchase_def sample_transfer_def sample_assignment_def sample_state_def
  sample_base_def sample_equipment_def no_fields_def sample_request_def

lemma await_Some:
  "await q k st = (Some r, st') \<longleftrightarrow>
     (\<exists>x st1. q st = (Some x, st1) \<and> k x st1 = (Some r, st'))"
  by (auto simp: await_def split: prod.splits option.splits)

lemma js_number_exact: "\<bar>n\<bar> \<le> 2 ^ 53 \<Longrightarrow> js_number n = n"
proof -
  assume b: "\<bar>n\<bar> \<le> 2 ^ 53"
  show ?thesis
  proof (cases "\<bar>n\<bar> < 2 ^ 53")
    case True
    then have "ulp 1 \<bar>n\<bar> = 1" by (simp add: ulp.simps [of 1])
    then show ?thesis by (simp add: js_number_def Let_def sgn_mult_abs)
  next
    case False
    with b have e: "\<bar>n\<bar> = 2 ^ 53" by simp
    have "ulp 1 (2 ^ 53) = 2" by (simp add: ulp.simps [of 1] ulp.simps [of 2])
    with e show ?thesis
      by (simp add: js_number_def Let_def) (simp add: sgn_if abs_if split: if_splits)
  qed
qed

lemma js_number_rounds:
  "js_number 9007199254740993 = 9007199254740992"
  "js_number 9007199254740995 = 9007199254740996"
  "js_number 9007199254740996 = 9007199254740996"
  by (simp_all add: js_number_def Let_def ulp.simps [of 1] ulp.simps [of 2])

lemma js_exact:
  "\<bar>x + y\<bar> \<le> 2 ^ 53 \<Longrightarrow> js_add x y = x + y"
  "\<bar>x - y\<bar> \<le> 2 ^ 53 \<Longrightarrow> js_sub x y = x - y"
  "\<bar>n\<bar> \<le> 2 ^ 53 \<Longrightarrow> parseInt n = n"
  by (simp_all add: js_add_def js_sub_def parseInt_def js_number_exact)

lemma computeMetrics_fields:
  "netMovement (computeMetrics a b c d e f) = js_sub (js_add b c) d"
  "closingBalance (computeMetrics a b c d e f) = js_add a (js_sub (js_add b c) d)"
  "openingBalance (computeMetrics a b c d e f) = a"
  "purchases (computeMetrics a b c d e f) = b"
  "transferIn (computeMetrics a b c d e f) = c"
  "transferOut (computeMetrics a b c d e f) = d"
  "assigned (computeMetrics a b c d e f) = e"
  "expended (computeMetrics a b c d e f) = f"
  by (simp_all add: computeMetrics_def Let_def)

lemma dashboard_body_Some:
  assumes "dashboard_body ev u q st = (Some r, st')"
  shows "\<exists>a b c d e f. r = reply 200 (MetricsData (computeMetrics a b c d e f))"
  using assms unfolding dashboard_body_def Let_def await_Some resolve_def
  by blast

lemma get_dashboard_metrics_data:
  assumes "get_dashboard_metrics ev u q st = (r, st')" and "content r = MetricsData m"
  shows "\<exists>a b c d e f. m = computeMetrics a b c d e f"
proof (cases "dashboard_body ev u q st")
  case (Pair res s1)
  show ?thesis
  proof (cases res)
    case None
    with Pair assms show ?thesis
      by (auto simp: get_dashboard_metrics_def try_catch_def reply_def)
  next
    case (Some r0)
    with Pair assms have "r = r0"
      by (simp add: get_dashboard_metrics_def try_catch_def)
    with dashboard_body_Some Pair Some assms(2) show ?thesis
      by (fastforce simp: reply_def)
  qed
qed

lemmas dashboard_eval =
  get_dashboard_metrics_def try_catch_def dashboard_body_def await_def resolve_def
  select_total_def select_where_def store_call_def baseFilter_def transfersFilter_def
  bind_int_def in_int4_def user_base_def active_assignments_def computeMetrics_def reply_def
  logger_def Let_def js_exact

lemma sample_alpha_dashboard:
  "fst (get_dashboard_metrics sample_env alpha_commander no_fields sample_state) =
     reply 200 (MetricsData
       \<lparr>openingBalance = 665, closingBalance = 785, netMovement = 120, purchases = 50,
        transferIn = 100, transferOut = 30, assigned = 1, expended = 20\<rparr>)"
  by (simp add: sample_defs dashboard_eval)

subsection \<open>Calls that only read\<close>

lemma same_data_refl: "same_data st st"
  by (simp add: same_data_def)

lemma same_data_trans: "same_data a b \<Longrightarrow> same_data b c \<Longrightarrow> same_data a c"
  by (simp add: same_data_def)

lemma same_data_tables:
  assumes "same_data st st'"
  shows "bases_table st' = bases_table st" "users_table st' = users_table st"
    "equipment_types_table st' = equipment_types_table st"
    "personnel_table st' = personnel_table st" "assets_table st' = assets_table st"
    "purchases_table st' = purchases_table st" "transfers_table st' = transfers_table st"
    "assignments_table st' = assignments_table st"
    "expenditures_table st' = expenditures_table st"
    "audit_logs_table st' = audit_logs_table st"
    "purchases_seq st' = purchases_seq st" "transfers_seq st' = transfers_seq st"
    "assignments_seq st' = assignments_seq st" "audit_logs_seq st' = audit_logs_seq st"
proof -
  from assms
  have eq: "st'\<lparr>store_calls := 0, faults := [], oplog := []\<rparr> =
            st\<lparr>store_calls := 0, faults := [], oplog := []\<rparr>"
    by (simp add: same_data_def)
  from arg_cong [OF eq, of bases_table] show "bases_table st' = bases_table st" by simp
  from arg_cong [OF eq, of users_table] show "users_table st' = users_table st" by simp
  from arg_cong [OF eq, of equipment_types_table]
  show "equipment_types_table st' = equipment_types_table st" by simp
  from arg_cong [OF eq, of personnel_table]
  show "personnel_table st' = personnel_table st" by simp
  from arg_cong [OF eq, of assets_table] show "assets_table st' = assets_table st" by simp
  from arg_cong [OF eq, of purchases_table]
  show "purchases_table st' = purchases_table st" by simp
  from arg_cong [OF eq, of transfers_table]
  show "transfers_table st' = transfers_table st" by simp
  from arg_cong [OF eq, of assignments_table]
  show "assignments_table st' = assignments_table st" by simp
  from arg_cong [OF eq, of expenditures_table]
  show "expenditures_table st' = expenditures_table st" by simp
  from arg_cong [OF eq, of audit_logs_table]
  show "audit_logs_table st' = audit_logs_table st" by simp
  from arg_cong [OF eq, of purchases_seq] show "purchases_seq st' = purchases_seq st" by simp
  from arg_cong [OF eq, of transfers_seq] show "transfers_seq st' = transfers_seq st" by simp
  from arg_cong [OF eq, of assignments_seq]
  show "assignments_seq st' = assignments_seq st" by simp
  from arg_cong [OF eq, of audit_logs_seq]
  show "audit_logs_seq st' = audit_logs_seq st" by simp
qed

lemma store_call_same_data: "store_call st = (ok, st') \<Longrightarrow> same_data st st'"
  unfolding same_data_def store_call_def Let_def
  by (cases "faults st") auto

lemma select_where_same_data:
  "select_where ev matches tbl flt st = (res, st') \<Longrightarrow> same_data st st'"
  unfolding select_where_def
  by (auto split: prod.splits bool.splits option.splits bound.splits
      dest: store_call_same_data)

lemma select_where_rows:
  "select_where ev matches tbl (Some (JNum b)) st = (Some rows, st') \<Longrightarrow>
     rows = filter (matches b) (tbl st')"
  by (auto simp: select_where_def bind_int_def split: prod.splits bool.splits if_splits)

lemma select_total_same_data:
  "select_total ev matches qty tbl flt st = (res, st') \<Longrightarrow> same_data st st'"
  unfolding select_total_def await_def resolve_def
  by (auto split: prod.splits option.splits dest: select_where_same_data)

lemma select_total_int:
  "select_total ev matches qty tbl (Some (JNum b)) st = (Some x, st') \<Longrightarrow>
     x = parseInt (sum_list (map qty (filter (matches b) (tbl st'))))"
  unfolding select_total_def await_Some resolve_def
  using select_where_rows by fastforce

subsection \<open>What a commander is shown\<close>

lemma commander_filters:
  "u_role u = Commander \<Longrightarrow> baseFilter u f = Some (user_base u)"
  "u_role u = Commander \<Longrightarrow> transfersFilter u f = Some (user_base u)"
  "u_role u = Commander \<Longrightarrow> role_filter u = Some (user_base u)"
  by (simp_all add: baseFilter_def transfersFilter_def role_filter_def)

lemma commander_dashboard_body:
  "u_role u = Commander \<Longrightarrow> dashboard_body ev u q = dashboard_body ev u q'"
  by (simp add: dashboard_body_def commander_filters)

lemma count_rows: "(\<Sum>_\<leftarrow>xs. (1::int)) = int (length xs)"
  by (induction xs) auto

lemma commander_metrics:
  assumes "u_role u = Commander" "u_base_id u = Some b"
    and "get_dashboard_metrics ev u q st = (r, st')" "content r = MetricsData m"
  shows "openingBalance m = parseInt
           (sum_list (map a_quantity (filter (\<lambda>r. a_base_id r = b) (assets_table st))))
    \<and> purchases m = parseInt
           (sum_list (map p_quantity (filter (\<lambda>r. p_base_id r = b) (purchases_table st))))
    \<and> transferIn m = parseInt
           (sum_list (map t_quantity (filter (\<lambda>r. t_to_base_id r = b) (transfers_table st))))
    \<and> transferOut m = parseInt
           (sum_list (map t_quantity (filter (\<lambda>r. t_from_base_id r = b) (transfers_table st))))
    \<and> assigned m = parseInt
           (int (length (filter (\<lambda>r. as_base_id r = b \<and> as_status r = ''active'')
                  (assignments_table st))))
    \<and> expended m = parseInt
           (sum_list (map e_quantity (filter (\<lambda>r. e_base_id r = b) (expenditures_table st))))"
proof -
  from assms(3,4) obtain s6 where "dashboard_body ev u q st = (Some r, s6)"
    by (auto simp: get_dashboard_metrics_def try_catch_def reply_def
        split: prod.splits option.splits)
  then obtain x1 x2 x3 x4 x5 x6 s1 s2 s3 s4 s5 where
    c1: "select_total ev (\<lambda>b r. a_base_id r = b) a_quantity assets_table
           (Some (JNum b)) st = (Some x1, s1)" and
    c2: "select_total ev (\<lambda>b r. p_base_id r = b) p_quantity purchases_table
           (Some (JNum b)) s1 = (Some x2, s2)" and
    c3: "select_total ev (\<lambda>b r. t_to_base_id r = b) t_quantity transfers_table
           (Some (JNum b)) s2 = (Some x3, s3)" and
    c4: "select_total ev (\<lambda>b r. t_from_base_id r = b) t_quantity transfers_table
           (Some (JNum b)) s3 = (Some x4, s4)" and
    c5: "select_total ev (\<lambda>b r. as_base_id r = b) (\<lambda>_. 1) active_assignments
           (Some (JNum b)) s4 = (Some x5, s5)" and
    c6: "select_total ev (\<lambda>b r. e_base_id r = b) e_quantity expenditures_table
           (Some (JNum b)) s5 = (Some x6, s6)" and
    r: "r = reply 200 (MetricsData (computeMetrics x1 x2 x3 x4 x5 x6))"
    unfolding dashboard_body_def Let_def await_Some resolve_def commander_filters [OF assms(1)]
      user_base_def assms(2)
    by auto
  note ro = select_total_same_data
  have t1: "same_data st s1" using ro [OF c1] .
  have t2: "same_data st s2" using same_data_trans [OF t1 ro [OF c2]] .
  have t3: "same_data st s3" using same_data_trans [OF t2 ro [OF c3]] .
  have t4: "same_data st s4" using same_data_trans [OF t3 ro [OF c4]] .
  have t5: "same_data st s5" using same_data_trans [OF t4 ro [OF c5]] .
  have t6: "same_data st s6" using same_data_trans [OF t5 ro [OF c6]] .
  from r assms(4) have m: "m = computeMetrics x1 x2 x3 x4 x5 x6" by (simp add: reply_def)
  show ?thesis
    unfolding m computeMetrics_fields
    using select_total_int [OF c1] select_total_int [OF c2] select_total_int [OF c3]
      select_total_int [OF c4] select_total_int [OF c5] select_total_int [OF c6]
    by (simp add: same_data_tables [OF t1] same_data_tables [OF t2] same_data_tables [OF t3]
        same_data_tables [OF t4] same_data_tables [OF t5] same_data_tables [OF t6]
        active_assignments_def count_rows conj_commute)
qed

lemma try_catch_rows:
  "try_catch (await q (\<lambda>rows. resolve (reply 200 (mk rows)))) tag msg st = (r, st') \<Longrightarrow>
   status r = 200 \<Longrightarrow> \<exists>rows. q st = (Some rows, st') \<and> r = reply 200 (mk rows)"
  by (auto simp: try_catch_def await_def resolve_def reply_def split: prod.splits option.splits)

lemma joined_frame:
  "same_data st st' \<Longrightarrow> joined_purchases st' = joined_purchases st"
  "same_data st st' \<Longrightarrow> joined_transfers st' = joined_transfers st"
  "same_data st st' \<Longrightarrow> joined_assignments st' = joined_assignments st"
  by (simp_all add: joined_purchases_def joined_transfers_def joined_assignments_def
      base_ids_def equipment_ids_def same_data_tables)

lemma commander_list:
  assumes "u_role u = Commander" "u_base_id u = Some b"
    and "try_catch (await (select_where ev matches tbl (role_filter u))
            (\<lambda>rows. resolve (reply 200 (mk rows)))) tag msg st = (r, st')"
    and "status r = 200"
  shows "r = reply 200 (mk (filter (matches b) (tbl st')))" "same_data st st'"
proof -
  from try_catch_rows [OF assms(3,4)] obtain rows where
    q: "select_where ev matches tbl (Some (JNum b)) st = (Some rows, st')"
    and r: "r = reply 200 (mk rows)"
    by (auto simp: commander_filters [OF assms(1)] user_base_def assms(2))
  from select_where_rows [OF q] r show "r = reply 200 (mk (filter (matches b) (tbl st')))"
    by simp
  from select_where_same_data [OF q] show "same_data st st'" .
qed


subsection \<open>The paths through the three POST handlers\<close>

text \<open>
  Each handler takes one of its early returns, or reaches its INSERT; past the INSERT the
  answer is 201 with the row, or 500 when the store refused it.
\<close>

lemma post_purchases_missing:
  "\<not> purchase_fields payload \<Longrightarrow>
     post_purchases ev u payload st =
       (reply 400 (Failed ''Required fields: base_id, equipment_type_id, quantity, purchase_date''), st)"
  by (auto simp: purchase_fields_def post_purchases_def try_catch_def resolve_def Let_def)

lemma post_purchases_foreign:
  "purchase_fields payload \<Longrightarrow> u_role u = Commander \<Longrightarrow>
   \<not> strict_eq (payload ''base_id'') (user_base u) \<Longrightarrow>
     post_purchases ev u payload st =
       (reply 403 (Failed ''You can only create purchases for your assigned base''), st)"
  by (auto simp: purchase_fields_def post_purchases_def try_catch_def resolve_def Let_def)

lemma post_purchases_insert:
  "purchase_fields payload \<Longrightarrow>
   u_role u \<noteq> Commander \<or> strict_eq (payload ''base_id'') (user_base u) \<Longrightarrow>
     post_purchases ev u payload st =
       (case insert_purchase ev (payload ''base_id'') (payload ''equipment_type_id'')
               (payload ''quantity'') (payload ''cost'') (payload ''purchase_date'')
               (payload ''supplier'') (payload ''notes'') (u_id u) st of
          (Some row, s1) \<Rightarrow>
            (reply 201 (PurchaseCreated row),
             logger Info ''New purchase created:''
               (logAudit (u_id u) ''CREATE'' ''PURCHASE'' (p_id row)
                  [(''base_id'', payload ''base_id''),
                   (''equipment_type_id'', payload ''equipment_type_id''),
                   (''quantity'', payload ''quantity''), (''cost'', payload ''cost'')] s1))
        | (None, s1) \<Rightarrow>
            (reply 500 (Failed ''Failed to create purchase record''),
             logger Error ''Create purchase error:'' s1))"
  by (auto simp: purchase_fields_def post_purchases_def try_catch_def resolve_def Let_def await_def
      split: prod.splits option.splits)

lemma post_transfers_missing:
  "\<not> transfer_fields payload \<Longrightarrow>
     post_transfers ev u payload st =
       (reply 400 (Failed ''Required fields: from_base_id, to_base_id, equipment_type_id, quantity, transfer_date''), st)"
  by (auto simp: transfer_fields_def post_transfers_def try_catch_def resolve_def Let_def)

lemma post_transfers_same:
  "transfer_fields payload \<Longrightarrow> strict_eq (payload ''from_base_id'') (payload ''to_base_id'') \<Longrightarrow>
     post_transfers ev u payload st =
       (reply 400 (Failed ''Cannot transfer to the same base''), st)"
  by (auto simp: transfer_fields_def post_transfers_def try_catch_def resolve_def Let_def)

lemma post_transfers_foreign:
  "transfer_fields payload \<Longrightarrow> \<not> strict_eq (payload ''from_base_id'') (payload ''to_base_id'') \<Longrightarrow>
   u_role u = Commander \<Longrightarrow> \<not> strict_eq (payload ''from_base_id'') (user_base u) \<Longrightarrow>
   \<not> strict_eq (payload ''to_base_id'') (user_base u) \<Longrightarrow>
     post_transfers ev u payload st =
       (reply 403 (Failed ''You can only create transfers involving your assigned base''), st)"
  by (auto simp: transfer_fields_def post_transfers_def try_catch_def resolve_def Let_def)

lemma post_transfers_insert:
  "transfer_fields payload \<Longrightarrow> \<not> strict_eq (payload ''from_base_id'') (payload ''to_base_id'') \<Longrightarrow>
   u_role u \<noteq> Commander \<or> strict_eq (payload ''from_base_id'') (user_base u)
     \<or> strict_eq (payload ''to_base_id'') (user_base u) \<Longrightarrow>
     post_transfers ev u payload st =
       (case insert_transfer ev (payload ''from_base_id'') (payload ''to_base_id'')
               (payload ''equipment_type_id'') (payload ''quantity'')
               (payload ''transfer_date'') (payload ''notes'') (u_id u) st of
          (Some row, s1) \<Rightarrow>
            (reply 201 (TransferCreated row),
             logger Info ''New transfer created:''
               (logAudit (u_id u) ''CREATE'' ''TRANSFER'' (t_id row)
                  [(''from_base_id'', payload ''from_base_id''),
                   (''to_base_id'', payload ''to_base_id''),
                   (''equipment_type_id'', payload ''equipment_type_id''),
                   (''quantity'', payload ''quantity'')] s1))
        | (None, s1) \<Rightarrow>
            (reply 500 (Failed ''Failed to create transfer record''),
             logger Error ''Create transfer error:'' s1))"
  by (auto simp: transfer_fields_def post_transfers_def try_catch_def resolve_def Let_def await_def
      split: prod.splits option.splits)

lemma post_assignments_missing:
  "\<not> assignment_fields payload \<Longrightarrow>
     post_assignments ev u payload st =
       (reply 400 (Failed ''Required fields: base_id, equipment_type_id, personnel_id, assignment_date''), st)"
  by (auto simp: assignment_fields_def post_assignments_def try_catch_def resolve_def Let_def)

lemma post_assignments_foreign:
  "assignment_fields payload \<Longrightarrow> u_role u = Commander \<Longrightarrow>
   \<not> strict_eq (payload ''base_id'') (user_base u) \<Longrightarrow>
     post_assignments ev u payload st =
       (reply 403 (Failed ''You can only create assignments for your assigned base''), st)"
  by (auto simp: assignment_fields_def post_assignments_def try_catch_def resolve_def Let_def)

lemma post_assignments_insert:
  "assignment_fields payload \<Longrightarrow>
   u_role u \<noteq> Commander \<or> strict_eq (payload ''base_id'') (user_base u) \<Longrightarrow>
     post_assignments ev u payload st =
       (case insert_assignment ev (payload ''base_id'') (payload ''equipment_type_id'')
               (payload ''personnel_id'') (payload ''serial_number'')
               (payload ''assignment_date'') (payload ''notes'') (u_id u) st of
          (Some row, s1) \<Rightarrow>
            (reply 201 (AssignmentCreated row),
             logger Info ''New assignment created:''
               (logAudit (u_id u) ''CREATE'' ''ASSIGNMENT'' (as_id row)
                  [(''base_id'', payload ''base_id''),
                   (''equipment_type_id'', payload ''equipment_type_id''),
                   (''personnel_id'', payload ''personnel_id''),
                   (''serial_number'', payload ''serial_number'')] s1))
        | (None, s1) \<Rightarrow>
            (reply 500 (Failed ''Failed to create assignment record''),
             logger Error ''Create assignment error:'' s1))"
  by (auto simp: assignment_fields_def post_assignments_def try_catch_def resolve_def Let_def await_def
      split: prod.splits option.splits)


subsection \<open>What an INSERT and the audit trail change\<close>

lemma logger_same_data: "same_data st (logger lvl msg st)"
  by (simp add: same_data_def logger_def)

lemma insert_purchase_frame:
  assumes "insert_purchase ev b e q c d s n uid st = (res, st')"
  shows "transfers_table st' = transfers_table st \<and> assignments_table st' = assignments_table st
     \<and> audit_logs_table st' = audit_logs_table st \<and> oplog st' = oplog st
     \<and> users_table st' = users_table st \<and> audit_logs_seq st' = audit_logs_seq st
     \<and> (case res of
          None \<Rightarrow> purchases_table st' = purchases_table st
        | Some row \<Rightarrow> purchases_table st' = purchases_table st @ [row]
                      \<and> 0 < p_quantity row \<and> p_created_by row = Some uid
                      \<and> bind_int ev b = SqlInt (p_base_id row))"
  using assms
  unfolding insert_purchase_def Let_def
  by (auto simp: store_call_def Let_def
      split: prod.splits bool.splits if_splits list.splits bound.splits)

lemma insert_transfer_frame:
  assumes "insert_transfer ev f t e q d n uid st = (res, st')"
  shows "purchases_table st' = purchases_table st \<and> assignments_table st' = assignments_table st
     \<and> audit_logs_table st' = audit_logs_table st \<and> oplog st' = oplog st
     \<and> users_table st' = users_table st \<and> audit_logs_seq st' = audit_logs_seq st
     \<and> (case res of
          None \<Rightarrow> transfers_table st' = transfers_table st
        | Some row \<Rightarrow> transfers_table st' = transfers_table st @ [row]
                      \<and> t_from_base_id row \<noteq> t_to_base_id row \<and> 0 < t_quantity row
                      \<and> t_status row = ''pending'' \<and> t_created_by row = Some uid
                      \<and> bind_int ev f = SqlInt (t_from_base_id row)
                      \<and> bind_int ev t = SqlInt (t_to_base_id row))"
  using assms
  unfolding insert_transfer_def Let_def
  by (auto simp: store_call_def Let_def
      split: prod.splits bool.splits if_splits list.splits bound.splits)

lemma insert_assignment_frame:
  assumes "insert_assignment ev b e p sn d n uid st = (res, st')"
  shows "purchases_table st' = purchases_table st \<and> transfers_table st' = transfers_table st
     \<and> audit_logs_table st' = audit_logs_table st \<and> oplog st' = oplog st
     \<and> users_table st' = users_table st \<and> audit_logs_seq st' = audit_logs_seq st
     \<and> (case res of
          None \<Rightarrow> assignments_table st' = assignments_table st
        | Some row \<Rightarrow> assignments_table st' = assignments_table st @ [row]
                      \<and> as_status row = ''active'' \<and> as_created_by row = Some uid
                      \<and> bind_int ev b = SqlInt (as_base_id row))"
  using assms
  unfolding insert_assignment_def Let_def
  by (auto simp: store_call_def Let_def
      split: prod.splits bool.splits if_splits list.splits bound.splits)

lemma insert_audit_log_frame:
  assumes "insert_audit_log uid act ty eid det st = (res, st')"
  shows "purchases_table st' = purchases_table st \<and> transfers_table st' = transfers_table st
     \<and> assignments_table st' = assignments_table st \<and> oplog st' = oplog st
     \<and> (case res of
          None \<Rightarrow> audit_logs_table st' = audit_logs_table st
        | Some row \<Rightarrow>
            audit_logs_table st' = audit_logs_table st @ [row]
            \<and> row = \<lparr>al_id = audit_logs_seq st, al_user_id = Some uid, al_action = act,
                      al_entity_type = ty, al_entity_id = Some eid, al_details = det\<rparr>)"
  using assms
  unfolding insert_audit_log_def Let_def
  by (auto simp: store_call_def Let_def split: prod.splits bool.splits if_splits list.splits)

lemma logAudit_frame:
  "purchases_table (logAudit uid act ty eid det st) = purchases_table st
   \<and> transfers_table (logAudit uid act ty eid det st) = transfers_table st
   \<and> assignments_table (logAudit uid act ty eid det st) = assignments_table st"
proof (cases "insert_audit_log uid act ty eid det st")
  case (Pair res s1)
  with insert_audit_log_frame [OF Pair] show ?thesis
    by (cases res) (simp_all add: logAudit_def logger_def)
qed

text \<open>
  The audit INSERT is the second store call of a create: it finds the schedule of faults
  one entry shorter, and the user, the sequence and the table of the audit log as they
  were before the create.
\<close>

lemma store_call_fst: "fst (store_call s) = (case faults s of [] \<Rightarrow> True | f # _ \<Rightarrow> \<not> f)"
  by (simp add: store_call_def Let_def split: list.splits)

lemma store_call_snd:
  "faults (snd (store_call s)) = tl (faults s)"
  "users_table (snd (store_call s)) = users_table s"
  "audit_logs_table (snd (store_call s)) = audit_logs_table s"
  "audit_logs_seq (snd (store_call s)) = audit_logs_seq s"
  "oplog (snd (store_call s)) = oplog s"
  by (simp_all add: store_call_def Let_def split: list.splits)

lemma logAudit_exact:
  "logAudit uid act ty eid det s =
     (if fst (store_call s) \<and> uid \<in> user_ids s
         \<and> audit_logs_seq s \<notin> set (map al_id (audit_logs_table s))
      then logger Info ''Audit Log:''
             ((snd (store_call s))\<lparr>audit_logs_seq := audit_logs_seq s + 1,
                audit_logs_table := audit_logs_table s @
                  [\<lparr>al_id = audit_logs_seq s, al_user_id = Some uid, al_action = act,
                    al_entity_type = ty, al_entity_id = Some eid, al_details = det\<rparr>]\<rparr>)
      else logger Error ''Failed to create audit log:''
             (if fst (store_call s)
              then (snd (store_call s))\<lparr>audit_logs_seq := audit_logs_seq s + 1\<rparr>
              else snd (store_call s)))"
  by (cases "store_call s")
     (auto simp: logAudit_def insert_audit_log_def Let_def user_ids_def store_call_def
        split: list.splits)

lemma insert_purchase_sched:
  assumes "insert_purchase ev b e q c d s n uid st = (Some row, st')"
  shows "faults st' = tl (faults st) \<and> uid \<in> user_ids st"
  using assms
  unfolding insert_purchase_def Let_def
  by (auto simp: store_call_def Let_def user_ids_def
      split: prod.splits bool.splits if_splits list.splits bound.splits)

lemma insert_transfer_sched:
  assumes "insert_transfer ev f t e q d n uid st = (Some row, st')"
  shows "faults st' = tl (faults st) \<and> uid \<in> user_ids st"
  using assms
  unfolding insert_transfer_def Let_def
  by (auto simp: store_call_def Let_def user_ids_def
      split: prod.splits bool.splits if_splits list.splits bound.splits)

lemma insert_assignment_sched:
  assumes "insert_assignment ev b e p sn d n uid st = (Some row, st')"
  shows "faults st' = tl (faults st) \<and> uid \<in> user_ids st"
  using assms
  unfolding insert_assignment_def Let_def
  by (auto simp: store_call_def Let_def user_ids_def
      split: prod.splits bool.splits if_splits list.splits bound.splits)

lemma second_call:
  "faults s1 = tl (faults st) \<Longrightarrow> fst (store_call s1) = fst (store_call (snd (store_call st)))"
  by (simp add: store_call_fst store_call_snd)

lemma logAudit_after_insert:
  assumes "faults s1 = tl (faults st)" "uid \<in> user_ids st" "users_table s1 = users_table st"
    "audit_logs_seq s1 = audit_logs_seq st" "audit_logs_table s1 = audit_logs_table st"
    "oplog s1 = oplog st"
  shows "(if fst (store_call (snd (store_call st)))
             \<and> audit_logs_seq st \<notin> set (map al_id (audit_logs_table st))
          then audit_logs_table (logger lvl msg (logAudit uid act ty eid det s1)) =
                 audit_logs_table st @
                   [\<lparr>al_id = audit_logs_seq st, al_user_id = Some uid, al_action = act,
                     al_entity_type = ty, al_entity_id = Some eid, al_details = det\<rparr>]
               \<and> oplog (logger lvl msg (logAudit uid act ty eid det s1)) =
                   oplog st @ [(Info, ''Audit Log:''), (lvl, msg)]
          else audit_logs_table (logger lvl msg (logAudit uid act ty eid det s1)) =
                 audit_logs_table st
               \<and> oplog (logger lvl msg (logAudit uid act ty eid det s1)) =
                   oplog st @ [(Error, ''Failed to create audit log:''), (lvl, msg)])"
proof -
  from assms(2,3) have u: "uid \<in> user_ids s1" by (simp add: user_ids_def)
  note sc = second_call [OF assms(1)]
  show ?thesis
    unfolding logAudit_exact [of uid act ty eid det s1]
    using u sc assms(4,5,6)
    by (simp add: logger_def store_call_snd)
qed


subsection \<open>Handlers that leave the tables alone\<close>

lemma await_sd:
  assumes "\<And>s. same_data s (snd (q s))" and "\<And>x s. same_data s (snd (k x s))"
  shows "same_data st (snd (await q k st))"
proof (cases "q st")
  case (Pair res s1)
  from assms(1) [of st] Pair have 1: "same_data st s1" by simp
  show ?thesis
  proof (cases res)
    case None
    with Pair 1 show ?thesis by (simp add: await_def)
  next
    case (Some x)
    from same_data_trans [OF 1 assms(2) [of s1 x]] Pair Some show ?thesis
      by (simp add: await_def)
  qed
qed

lemma resolve_sd: "same_data s (snd (resolve x s))"
  by (simp add: resolve_def same_data_refl)

lemma try_catch_sd:
  assumes "\<And>s. same_data s (snd (bd s))"
  shows "same_data st (snd (try_catch bd tag msg st))"
proof (cases "bd st")
  case (Pair res s1)
  from assms [of st] Pair have 1: "same_data st s1" by simp
  from same_data_trans [OF 1 logger_same_data] 1 Pair show ?thesis
    by (cases res) (simp_all add: try_catch_def)
qed

lemma select_where_sd: "same_data s (snd (select_where ev m t f s))"
  using select_where_same_data [of ev m t f s] by (cases "select_where ev m t f s") simp

lemma select_total_sd: "same_data s (snd (select_total ev m q t f s))"
  using select_total_same_data [of ev m q t f s] by (cases "select_total ev m q t f s") simp

lemma select_audit_logs_sd: "same_data s (snd (select_audit_logs ev l off s))"
  unfolding select_audit_logs_def Let_def
  by (auto split: prod.splits bool.splits bound.splits dest: store_call_same_data
      simp: same_data_refl)

lemma get_dashboard_metrics_sd: "same_data st (snd (get_dashboard_metrics ev u q st))"
  unfolding get_dashboard_metrics_def dashboard_body_def Let_def
  by (intro try_catch_sd await_sd select_total_sd resolve_sd)

lemma list_handlers_sd:
  "same_data st (snd (get_purchases ev u st))"
  "same_data st (snd (get_transfers ev u st))"
  "same_data st (snd (get_assignments ev u st))"
  "same_data st (snd (get_bases ev st))"
  "same_data st (snd (get_equipment_types ev st))"
  "same_data st (snd (get_audit_logs ev q st))"
  unfolding get_purchases_def get_transfers_def get_assignments_def get_bases_def
    get_equipment_types_def get_audit_logs_def
  by (intro try_catch_sd await_sd select_where_sd select_audit_logs_sd resolve_sd)+

subsection \<open>The transfers table through every route\<close>

lemma post_purchases_transfers:
  "transfers_table (snd (post_purchases ev u payload st)) = transfers_table st"
proof (cases "purchase_fields payload")
  case False
  then show ?thesis by (simp add: post_purchases_missing)
next
  case True
  show ?thesis
  proof (cases "u_role u = Commander \<and> \<not> strict_eq (payload ''base_id'') (user_base u)")
    case True
    with \<open>purchase_fields payload\<close> show ?thesis by (simp add: post_purchases_foreign)
  next
    case False
    then have *: "u_role u \<noteq> Commander \<or> strict_eq (payload ''base_id'') (user_base u)" by blast
    obtain res s1 where i: "insert_purchase ev (payload ''base_id'') (payload ''equipment_type_id'')
               (payload ''quantity'') (payload ''cost'') (payload ''purchase_date'')
               (payload ''supplier'') (payload ''notes'') (u_id u) st = (res, s1)"
      by (meson surj_pair)
    from insert_purchase_frame [OF i] show ?thesis
      unfolding post_purchases_insert [OF True *] i
      by (cases res) (simp_all add: logger_def logAudit_frame)
  qed
qed

lemma post_assignments_transfers:
  "transfers_table (snd (post_assignments ev u payload st)) = transfers_table st"
proof (cases "assignment_fields payload")
  case False
  then show ?thesis by (simp add: post_assignments_missing)
next
  case True
  show ?thesis
  proof (cases "u_role u = Commander \<and> \<not> strict_eq (payload ''base_id'') (user_base u)")
    case True
    with \<open>assignment_fields payload\<close> show ?thesis by (simp add: post_assignments_foreign)
  next
    case False
    then have *: "u_role u \<noteq> Commander \<or> strict_eq (payload ''base_id'') (user_base u)" by blast
    obtain res s1 where i: "insert_assignment ev (payload ''base_id'') (payload ''equipment_type_id'')
               (payload ''personnel_id'') (payload ''serial_number'')
               (payload ''assignment_date'') (payload ''notes'') (u_id u) st = (res, s1)"
      by (meson surj_pair)
    from insert_assignment_frame [OF i] show ?thesis
      unfolding post_assignments_insert [OF True *] i
      by (cases res) (simp_all add: logger_def logAudit_frame)
  qed
qed

lemma post_transfers_transfers:
  "t \<in> set (transfers_table (snd (post_transfers ev u payload st))) \<Longrightarrow>
     t \<in> set (transfers_table st) \<or> t_from_base_id t \<noteq> t_to_base_id t"
proof (cases "transfer_fields payload")
  case False
  assume "t \<in> set (transfers_table (snd (post_transfers ev u payload st)))"
  with False show ?thesis by (simp add: post_transfers_missing)
next
  case True
  assume t: "t \<in> set (transfers_table (snd (post_transfers ev u payload st)))"
  show ?thesis
  proof (cases "strict_eq (payload ''from_base_id'') (payload ''to_base_id'')")
    case True
    with \<open>transfer_fields payload\<close> t show ?thesis by (simp add: post_transfers_same)
  next
    case ne: False
    show ?thesis
    proof (cases "u_role u = Commander \<and> \<not> strict_eq (payload ''from_base_id'') (user_base u)
        \<and> \<not> strict_eq (payload ''to_base_id'') (user_base u)")
      case True
      with \<open>transfer_fields payload\<close> ne t show ?thesis by (simp add: post_transfers_foreign)
    next
      case False
      then have *: "u_role u \<noteq> Commander \<or> strict_eq (payload ''from_base_id'') (user_base u)
         \<or> strict_eq (payload ''to_base_id'') (user_base u)" by blast
      obtain res s1 where i: "insert_transfer ev (payload ''from_base_id'') (payload ''to_base_id'')
               (payload ''equipment_type_id'') (payload ''quantity'')
               (payload ''transfer_date'') (payload ''notes'') (u_id u) st = (res, s1)"
        by (meson surj_pair)
      from insert_transfer_frame [OF i] t show ?thesis
        unfolding post_transfers_insert [OF True ne *] i
        by (cases res) (auto simp: logger_def logAudit_frame)
    qed
  qed
qed

lemma await_tt:
  assumes "\<And>s. transfers_table (snd (q s)) = transfers_table s"
    and "\<And>x s. transfers_table (snd (k x s)) = transfers_table s"
  shows "transfers_table (snd (await q k st)) = transfers_table st"
proof (cases "q st")
  case (Pair res s1)
  from assms(1) [of st] Pair have 1: "transfers_table s1 = transfers_table st" by simp
  show ?thesis
  proof (cases res)
    case None
    with Pair 1 show ?thesis by (simp add: await_def)
  next
    case (Some x)
    with assms(2) [of x s1] Pair 1 show ?thesis by (simp add: await_def)
  qed
qed

lemma try_catch_tt:
  assumes "\<And>s. transfers_table (snd (bd s)) = transfers_table s"
  shows "transfers_table (snd (try_catch bd tag msg st)) = transfers_table st"
proof (cases "bd st")
  case (Pair res s1)
  from assms [of st] Pair have "transfers_table s1 = transfers_table st" by simp
  with Pair show ?thesis
    by (cases res) (simp_all add: try_catch_def logger_def)
qed

lemma post_login_transfers:
  "transfers_table (snd (post_login ev payload st)) = transfers_table st"
proof -
  have su: "transfers_table (snd (select_user ev e s)) = transfers_table s" for e s
    by (auto simp: select_user_def store_call_def Let_def
        split: list.splits prod.splits bool.splits)
  have cp: "transfers_table (snd (compare_password ev p h s)) = transfers_table s" for p h s
    by (simp add: compare_password_def split: jsval.splits)
  have ul: "transfers_table (snd (update_last_login i s)) = transfers_table s" for i s
    by (auto simp: update_last_login_def store_call_def Let_def
        split: list.splits prod.splits bool.splits)
  show ?thesis
    unfolding post_login_def Let_def
    by (intro try_catch_tt)
      (auto intro!: await_tt simp: su cp ul resolve_def logger_def logAudit_frame split: list.splits)
qed


lemma checkRole_tt:
  assumes "\<And>s. transfers_table (snd (next s)) = transfers_table s"
  shows "transfers_table (snd (checkRole allowed u next st)) = transfers_table st"
  using assms by (simp add: checkRole_def logger_def)

lemma handle_other_transfers:
  "ep \<noteq> PostTransfers \<Longrightarrow>
     transfers_table (snd (handle ev ep u req st)) = transfers_table st"
  by (cases ep)
    (simp_all add: checkRole_tt post_purchases_transfers post_assignments_transfers
      post_login_transfers get_health_def same_data_tables(7) [OF get_dashboard_metrics_sd]
      same_data_tables(7) [OF list_handlers_sd(1)] same_data_tables(7) [OF list_handlers_sd(2)]
      same_data_tables(7) [OF list_handlers_sd(3)] same_data_tables(7) [OF list_handlers_sd(4)]
      same_data_tables(7) [OF list_handlers_sd(5)] same_data_tables(7) [OF list_handlers_sd(6)])

lemma handle_transfers:
  assumes "t \<in> set (transfers_table (snd (handle ev ep u req st)))"
  shows "t \<in> set (transfers_table st) \<or> t_from_base_id t \<noteq> t_to_base_id t"
proof (cases "ep = PostTransfers")
  case True
  with assms post_transfers_transfers [of t ev u "body req"] show ?thesis
    by (auto simp: checkRole_def logger_def split: if_splits)
next
  case False
  from handle_other_transfers [OF False] assms show ?thesis by simp
qed

lemma route_transfers:
  "t \<in> set (transfers_table (snd (route ev ep req st))) \<Longrightarrow>
     t \<in> set (transfers_table st) \<or> t_from_base_id t \<noteq> t_to_base_id t"
  unfolding route_def authenticateToken_def
  by (auto simp: post_login_transfers get_health_def dest: handle_transfers
      split: option.splits if_splits)


lemma serve_transfers:
  "\<forall>t\<in>set (transfers_table st). t_from_base_id t \<noteq> t_to_base_id t \<Longrightarrow>
   \<forall>t\<in>set (transfers_table (serve ev rs st)). t_from_base_id t \<noteq> t_to_base_id t"
proof (induction rs arbitrary: st)
  case Nil
  then show ?case by simp
next
  case (Cons r rs)
  obtain ep req where r: "r = (ep, req)" by (cases r)
  have "\<forall>t\<in>set (transfers_table (snd (route ev ep req st))). t_from_base_id t \<noteq> t_to_base_id t"
    using Cons.prems route_transfers by blast
  from Cons.IH [OF this] r show ?case by simp
qed


subsection \<open>The role check of the POST routes\<close>

lemmas route_eval =
  route_def authenticateToken_def token_of_def checkRole_def try_catch_def resolve_def
  await_def store_call_def bind_int_def in_int4_def base_ids_def equipment_ids_def
  user_ids_def logAudit_def insert_audit_log_def logger_def stored_def Let_def reply_def


lemma handle_create_admin_commander:
  "u_role u \<noteq> Logistics \<Longrightarrow> handle ev PostPurchases u req st = post_purchases ev u (body req) st"
  "u_role u \<noteq> Logistics \<Longrightarrow> handle ev PostAssignments u req st = post_assignments ev u (body req) st"
  "handle ev PostTransfers u req st = post_transfers ev u (body req) st"
  by (cases "u_role u"; simp add: checkRole_def)+

lemma handle_create_logistics:
  "u_role u = Logistics \<Longrightarrow> handle ev PostPurchases u req st =
     (reply 403 (Failed ''Access denied. You do not have permission to perform this action.''),
      logger Warn ''Access denied for user'' st)"
  "u_role u = Logistics \<Longrightarrow> handle ev PostAssignments u req st =
     (reply 403 (Failed ''Access denied. You do not have permission to perform this action.''),
      logger Warn ''Access denied for user'' st)"
  by (simp_all add: checkRole_def)

lemma post_transfers_not_403:
  "u_role u \<noteq> Commander \<Longrightarrow> status (fst (post_transfers ev u payload st)) \<noteq> 403"
proof (cases "transfer_fields payload")
  case False
  then show ?thesis by (simp add: post_transfers_missing reply_def)
next
  case True
  assume nc: "u_role u \<noteq> Commander"
  show ?thesis
  proof (cases "strict_eq (payload ''from_base_id'') (payload ''to_base_id'')")
    case True
    with \<open>transfer_fields payload\<close> show ?thesis by (simp add: post_transfers_same reply_def)
  next
    case False
    from nc have *: "u_role u \<noteq> Commander \<or> strict_eq (payload ''from_base_id'') (user_base u)
       \<or> strict_eq (payload ''to_base_id'') (user_base u)" by simp
    show ?thesis
      unfolding post_transfers_insert [OF True False *]
      by (simp add: reply_def split: prod.splits option.splits)
  qed
qed

subsection \<open>The audit write and the schedule of faults\<close>

text \<open>
  An INSERT consumes one entry of the schedule and depends on no later one: what follows
  the first entry decides only the calls that come after.
\<close>

lemma insert_purchase_faults:
  assumes "insert_purchase ev b e q c d s n uid (st\<lparr>faults := f # rest\<rparr>) = (res, s1)"
  shows "faults s1 = rest"
    and "insert_purchase ev b e q c d s n uid (st\<lparr>faults := f # rest'\<rparr>) =
           (res, s1\<lparr>faults := rest'\<rparr>)"
  using assms unfolding insert_purchase_def Let_def
  by (auto simp: store_call_def Let_def base_ids_def equipment_ids_def user_ids_def
      split: prod.splits bool.splits if_splits list.splits bound.splits)

lemma insert_transfer_faults:
  assumes "insert_transfer ev b t e q d n uid (st\<lparr>faults := f # rest\<rparr>) = (res, s1)"
  shows "faults s1 = rest"
    and "insert_transfer ev b t e q d n uid (st\<lparr>faults := f # rest'\<rparr>) =
           (res, s1\<lparr>faults := rest'\<rparr>)"
  using assms unfolding insert_transfer_def Let_def
  by (auto simp: store_call_def Let_def base_ids_def equipment_ids_def user_ids_def
      split: prod.splits bool.splits if_splits list.splits bound.splits)

lemma insert_assignment_faults:
  assumes "insert_assignment ev b e p sn d n uid (st\<lparr>faults := f # rest\<rparr>) = (res, s1)"
  shows "faults s1 = rest"
    and "insert_assignment ev b e p sn d n uid (st\<lparr>faults := f # rest'\<rparr>) =
           (res, s1\<lparr>faults := rest'\<rparr>)"
  using assms unfolding insert_assignment_def Let_def
  by (auto simp: store_call_def Let_def base_ids_def equipment_ids_def user_ids_def
      split: prod.splits bool.splits if_splits list.splits bound.splits)

lemma logAudit_fault:
  "faults s = True # fs \<Longrightarrow>
     audit_logs_table (logAudit uid act ty eid det s) = audit_logs_table s
     \<and> oplog (logAudit uid act ty eid det s) =
         oplog s @ [(Error, ''Failed to create audit log:'')]"
  by (simp add: logAudit_def insert_audit_log_def store_call_def Let_def logger_def)


lemma post_purchases_audited:
  assumes "post_purchases ev u payload st = (r, st')" and "status r = 201"
  shows "\<exists>row. content r = PurchaseCreated row \<and> purchases_table st' = purchases_table st @ [row]
     \<and> (if fst (store_call (snd (store_call st)))
            \<and> audit_logs_seq st \<notin> set (map al_id (audit_logs_table st))
         then audit_logs_table st' = audit_logs_table st @
                [\<lparr>al_id = audit_logs_seq st, al_user_id = Some (u_id u), al_action = ''CREATE'',
                  al_entity_type = ''PURCHASE'', al_entity_id = Some (p_id row),
                  al_details = [(''base_id'', payload ''base_id''),
                    (''equipment_type_id'', payload ''equipment_type_id''),
                    (''quantity'', payload ''quantity''), (''cost'', payload ''cost'')]\<rparr>]
              \<and> oplog st' = oplog st @ [(Info, ''Audit Log:''), (Info, ''New purchase created:'')]
         else audit_logs_table st' = audit_logs_table st
              \<and> oplog st' = oplog st @ [(Error, ''Failed to create audit log:''),
                                         (Info, ''New purchase created:'')])"
proof -
  have f: "purchase_fields payload"
  proof (rule ccontr)
    assume "\<not> purchase_fields payload"
    from post_purchases_missing [OF this, of ev u st] assms show False
      by (simp add: reply_def)
  qed
  have g: "u_role u \<noteq> Commander \<or> strict_eq (payload ''base_id'') (user_base u)"
  proof (rule ccontr)
    assume "\<not> (u_role u \<noteq> Commander \<or> strict_eq (payload ''base_id'') (user_base u))"
    with post_purchases_foreign [OF f , of u ev st] assms show False
      by (simp add: reply_def)
  qed
  obtain res s1 where i: "insert_purchase ev (payload ''base_id'') (payload ''equipment_type_id'')
        (payload ''quantity'') (payload ''cost'') (payload ''purchase_date'')
        (payload ''supplier'') (payload ''notes'') (u_id u) st = (res, s1)"
    by (meson surj_pair)
  from assms obtain row where res: "res = Some row" and r: "r = reply 201 (PurchaseCreated row)"
    and st': "st' = logger Info ''New purchase created:''
        (logAudit (u_id u) ''CREATE'' ''PURCHASE'' (p_id row) [(''base_id'', payload ''base_id''),
           (''equipment_type_id'', payload ''equipment_type_id''),
           (''quantity'', payload ''quantity''), (''cost'', payload ''cost'')] s1)"
    unfolding post_purchases_insert [OF f  g] i
    by (cases res) (auto simp: reply_def)
  note fr = insert_purchase_frame [OF i [unfolded res]]
  note sch = insert_purchase_sched [OF i [unfolded res]]
  from fr have tb: "purchases_table st' = purchases_table st @ [row]"
    unfolding st' by (simp add: logger_def logAudit_frame)
  from fr sch
  have a: "faults s1 = tl (faults st)" "u_id u \<in> user_ids st" "users_table s1 = users_table st"
    "audit_logs_seq s1 = audit_logs_seq st" "audit_logs_table s1 = audit_logs_table st"
    "oplog s1 = oplog st"
    by simp_all
  from logAudit_after_insert [OF a] tb show ?thesis
    unfolding r st' by (simp add: reply_def)
qed

lemma post_purchases_audit_fault:
  "fst (post_purchases ev u payload (st\<lparr>faults := f # a # fs\<rparr>)) =
   fst (post_purchases ev u payload (st\<lparr>faults := f # a' # fs\<rparr>))
   \<and> audit_logs_table (snd (post_purchases ev u payload (st\<lparr>faults := f # True # fs\<rparr>))) =
     audit_logs_table st"
proof (cases "purchase_fields payload")
  case False
  then show ?thesis by (simp add: post_purchases_missing)
next
  case f: True
  show ?thesis
    proof (cases "u_role u \<noteq> Commander \<or> strict_eq (payload ''base_id'') (user_base u)")
      case False
      with f  show ?thesis by (simp add: post_purchases_foreign)
    next
      case g: True
      obtain res s1 where i: "insert_purchase ev (payload ''base_id'') (payload ''equipment_type_id'')
        (payload ''quantity'') (payload ''cost'') (payload ''purchase_date'')
        (payload ''supplier'') (payload ''notes'') (u_id u) (st\<lparr>faults := f # a # fs\<rparr>) = (res, s1)"
        by (meson surj_pair)
      obtain res' s1' where
        i': "insert_purchase ev (payload ''base_id'') (payload ''equipment_type_id'')
        (payload ''quantity'') (payload ''cost'') (payload ''purchase_date'')
        (payload ''supplier'') (payload ''notes'') (u_id u) (st\<lparr>faults := f # True # fs\<rparr>) = (res', s1')"
        by (meson surj_pair)
      have 1: "fst (post_purchases ev u payload (st\<lparr>faults := f # a # fs\<rparr>)) =
          fst (post_purchases ev u payload (st\<lparr>faults := f # a' # fs\<rparr>))"
        unfolding post_purchases_insert [OF f  g] i insert_purchase_faults(2) [OF i, of "a' # fs"]
        by (cases res) simp_all
      from insert_purchase_frame [OF i'] insert_purchase_faults(1) [OF i']
      have 2: "audit_logs_table
          (snd (post_purchases ev u payload (st\<lparr>faults := f # True # fs\<rparr>))) =
          audit_logs_table st"
        unfolding post_purchases_insert [OF f  g] i'
        by (cases res') (simp_all add: logger_def logAudit_fault)
      from 1 2 show ?thesis by simp
    qed
qed

lemma post_transfers_audited:
  assumes "post_transfers ev u payload st = (r, st')" and "status r = 201"
  shows "\<exists>row. content r = TransferCreated row \<and> transfers_table st' = transfers_table st @ [row]
     \<and> (if fst (store_call (snd (store_call st)))
            \<and> audit_logs_seq st \<notin> set (map al_id (audit_logs_table st))
         then audit_logs_table st' = audit_logs_table st @
                [\<lparr>al_id = audit_logs_seq st, al_user_id = Some (u_id u), al_action = ''CREATE'',
                  al_entity_type = ''TRANSFER'', al_entity_id = Some (t_id row),
                  al_details = [(''from_base_id'', payload ''from_base_id''),
                    (''to_base_id'', payload ''to_base_id''),
                    (''equipment_type_id'', payload ''equipment_type_id''),
                    (''quantity'', payload ''quantity'')]\<rparr>]
              \<and> oplog st' = oplog st @ [(Info, ''Audit Log:''), (Info, ''New transfer created:'')]
         else audit_logs_table st' = audit_logs_table st
              \<and> oplog st' = oplog st @ [(Error, ''Failed to create audit log:''),
                                         (Info, ''New transfer created:'')])"
proof -
  have f: "transfer_fields payload"
  proof (rule ccontr)
    assume "\<not> transfer_fields payload"
    from post_transfers_missing [OF this, of ev u st] assms show False
      by (simp add: reply_def)
  qed
  have ne: "\<not> strict_eq (payload ''from_base_id'') (payload ''to_base_id'')"
  proof (rule ccontr)
    assume "\<not> \<not> strict_eq (payload ''from_base_id'') (payload ''to_base_id'')"
    then have "strict_eq (payload ''from_base_id'') (payload ''to_base_id'')" by simp
    from post_transfers_same [OF f this, of ev u st] assms show False
      by (simp add: reply_def)
  qed
  have g: "u_role u \<noteq> Commander \<or> strict_eq (payload ''from_base_id'') (user_base u)
      \<or> strict_eq (payload ''to_base_id'') (user_base u)"
  proof (rule ccontr)
    assume "\<not> (u_role u \<noteq> Commander \<or> strict_eq (payload ''from_base_id'') (user_base u)
      \<or> strict_eq (payload ''to_base_id'') (user_base u))"
    with post_transfers_foreign [OF f ne, of u ev st] assms show False
      by (simp add: reply_def)
  qed
  obtain res s1 where i: "insert_transfer ev (payload ''from_base_id'') (payload ''to_base_id'')
        (payload ''equipment_type_id'') (payload ''quantity'')
        (payload ''transfer_date'') (payload ''notes'') (u_id u) st = (res, s1)"
    by (meson surj_pair)
  from assms obtain row where res: "res = Some row" and r: "r = reply 201 (TransferCreated row)"
    and st': "st' = logger Info ''New transfer created:''
        (logAudit (u_id u) ''CREATE'' ''TRANSFER'' (t_id row)
           [(''from_base_id'', payload ''from_base_id''),
            (''to_base_id'', payload ''to_base_id''),
            (''equipment_type_id'', payload ''equipment_type_id''),
            (''quantity'', payload ''quantity'')] s1)"
    unfolding post_transfers_insert [OF f ne g] i
    by (cases res) (auto simp: reply_def)
  note fr = insert_transfer_frame [OF i [unfolded res]]
  note sch = insert_transfer_sched [OF i [unfolded res]]
  from fr have tb: "transfers_table st' = transfers_table st @ [row]"
    unfolding st' by (simp add: logger_def logAudit_frame)
  from fr sch
  have a: "faults s1 = tl (faults st)" "u_id u \<in> user_ids st" "users_table s1 = users_table st"
    "audit_logs_seq s1 = audit_logs_seq st" "audit_logs_table s1 = audit_logs_table st"
    "oplog s1 = oplog st"
    by simp_all
  from logAudit_after_insert [OF a] tb show ?thesis
    unfolding r st' by (simp add: reply_def)
qed

lemma post_transfers_audit_fault:
  "fst (post_transfers ev u payload (st\<lparr>faults := f # a # fs\<rparr>)) =
   fst (post_transfers ev u payload (st\<lparr>faults := f # a' # fs\<rparr>))
   \<and> audit_logs_table (snd (post_transfers ev u payload (st\<lparr>faults := f # True # fs\<rparr>))) =
     audit_logs_table st"
proof (cases "transfer_fields payload")
  case False
  then show ?thesis by (simp add: post_transfers_missing)
next
  case f: True
  show ?thesis
  proof (cases "strict_eq (payload ''from_base_id'') (payload ''to_base_id'')")
    case True
    with f show ?thesis by (simp add: post_transfers_same)
  next
    case ne: False
    show ?thesis
    proof (cases "u_role u \<noteq> Commander \<or> strict_eq (payload ''from_base_id'') (user_base u)
      \<or> strict_eq (payload ''to_base_id'') (user_base u)")
      case False
      with f ne show ?thesis by (simp add: post_transfers_foreign)
    next
      case g: True
      obtain res s1 where i: "insert_transfer ev (payload ''from_base_id'') (payload ''to_base_id'')
        (payload ''equipment_type_id'') (payload ''quantity'')
        (payload ''transfer_date'') (payload ''notes'') (u_id u) (st\<lparr>faults := f # a # fs\<rparr>) = (res, s1)"
        by (meson surj_pair)
      obtain res' s1' where
        i': "insert_transfer ev (payload ''from_base_id'') (payload ''to_base_id'')
        (payload ''equipment_type_id'') (payload ''quantity'')
        (payload ''transfer_date'') (payload ''notes'') (u_id u) (st\<lparr>faults := f # True # fs\<rparr>) = (res', s1')"
        by (meson surj_pair)
      have 1: "fst (post_transfers ev u payload (st\<lparr>faults := f # a # fs\<rparr>)) =
          fst (post_transfers ev u payload (st\<lparr>faults := f # a' # fs\<rparr>))"
        unfolding post_transfers_insert [OF f ne g] i insert_transfer_faults(2) [OF i, of "a' # fs"]
        by (cases res) simp_all
      from insert_transfer_frame [OF i'] insert_transfer_faults(1) [OF i']
      have 2: "audit_logs_table
          (snd (post_transfers ev u payload (st\<lparr>faults := f # True # fs\<rparr>))) =
          audit_logs_table st"
        unfolding post_transfers_insert [OF f ne g] i'
        by (cases res') (simp_all add: logger_def logAudit_fault)
      from 1 2 show ?thesis by simp
    qed
  qed
qed

lemma post_assignments_audited:
  assumes "post_assignments ev u payload st = (r, st')" and "status r = 201"
  shows "\<exists>row. content r = AssignmentCreated row \<and> assignments_table st' = assignments_table st @ [row]
     \<and> (if fst (store_call (snd (store_call st)))
            \<and> audit_logs_seq st \<notin> set (map al_id (audit_logs_table st))
         then audit_logs_table st' = audit_logs_table st @
                [\<lparr>al_id = audit_logs_seq st, al_user_id = Some (u_id u), al_action = ''CREATE'',
                  al_entity_type = ''ASSIGNMENT'', al_entity_id = Some (as_id row),
                  al_details = [(''base_id'', payload ''base_id''),
                    (''equipment_type_id'', payload ''equipment_type_id''),
                    (''personnel_id'', payload ''personnel_id''),
           (''serial_number'', payload ''serial_number'')]\<rparr>]
              \<and> oplog st' = oplog st @ [(Info, ''Audit Log:''), (Info, ''New assignment created:'')]
         else audit_logs_table st' = audit_logs_table st
              \<and> oplog st' = oplog st @ [(Error, ''Failed to create audit log:''),
                                         (Info, ''New assignment created:'')])"
proof -
  have f: "assignment_fields payload"
  proof (rule ccontr)
    assume "\<not> assignment_fields payload"
    from post_assignments_missing [OF this, of ev u st] assms show False
      by (simp add: reply_def)
  qed
  have g: "u_role u \<noteq> Commander \<or> strict_eq (payload ''base_id'') (user_base u)"
  proof (rule ccontr)
    assume "\<not> (u_role u \<noteq> Commander \<or> strict_eq (payload ''base_id'') (user_base u))"
    with post_assignments_foreign [OF f , of u ev st] assms show False
      by (simp add: reply_def)
  qed
  obtain res s1 where i: "insert_assignment ev (payload ''base_id'') (payload ''equipment_type_id'')
        (payload ''personnel_id'') (payload ''serial_number'')
        (payload ''assignment_date'') (payload ''notes'') (u_id u) st = (res, s1)"
    by (meson surj_pair)
  from assms obtain row where res: "res = Some row" and r: "r = reply 201 (AssignmentCreated row)"
    and st': "st' = logger Info ''New assignment created:''
        (logAudit (u_id u) ''CREATE'' ''ASSIGNMENT'' (as_id row) [(''base_id'', payload ''base_id''),
           (''equipment_type_id'', payload ''equipment_type_id''),
           (''personnel_id'', payload ''personnel_id''),
           (''serial_number'', payload ''serial_number'')] s1)"
    unfolding post_assignments_insert [OF f  g] i
    by (cases res) (auto simp: reply_def)
  note fr = insert_assignment_frame [OF i [unfolded res]]
  note sch = insert_assignment_sched [OF i [unfolded res]]
  from fr have tb: "assignments_table st' = assignments_table st @ [row]"
    unfolding st' by (simp add: logger_def logAudit_frame)
  from fr sch
  have a: "faults s1 = tl (faults st)" "u_id u \<in> user_ids st" "users_table s1 = users_table st"
    "audit_logs_seq s1 = audit_logs_seq st" "audit_logs_table s1 = audit_logs_table st"
    "oplog s1 = oplog st"
    by simp_all
  from logAudit_after_insert [OF a] tb show ?thesis
    unfolding r st' by (simp add: reply_def)
qed

lemma post_assignments_audit_fault:
  "fst (post_assignments ev u payload (st\<lparr>faults := f # a # fs\<rparr>)) =
   fst (post_assignments ev u payload (st\<lparr>faults := f # a' # fs\<rparr>))
   \<and> audit_logs_table (snd (post_assignments ev u payload (st\<lparr>faults := f # True # fs\<rparr>))) =
     audit_logs_table st"
proof (cases "assignment_fields payload")
  case False
  then show ?thesis by (simp add: post_assignments_missing)
next
  case f: True
  show ?thesis
    proof (cases "u_role u \<noteq> Commander \<or> strict_eq (payload ''base_id'') (user_base u)")
      case False
      with f  show ?thesis by (simp add: post_assignments_foreign)
    next
      case g: True
      obtain res s1 where i: "insert_assignment ev (payload ''base_id'') (payload ''equipment_type_id'')
        (payload ''personnel_id'') (payload ''serial_number'')
        (payload ''assignment_date'') (payload ''notes'') (u_id u) (st\<lparr>faults := f # a # fs\<rparr>) = (res, s1)"
        by (meson surj_pair)
      obtain res' s1' where
        i': "insert_assignment ev (payload ''base_id'') (payload ''equipment_type_id'')
        (payload ''personnel_id'') (payload ''serial_number'')
        (payload ''assignment_date'') (payload ''notes'') (u_id u) (st\<lparr>faults := f # True # fs\<rparr>) = (res', s1')"
        by (meson surj_pair)
      have 1: "fst (post_assignments ev u payload (st\<lparr>faults := f # a # fs\<rparr>)) =
          fst (post_assignments ev u payload (st\<lparr>faults := f # a' # fs\<rparr>))"
        unfolding post_assignments_insert [OF f  g] i insert_assignment_faults(2) [OF i, of "a' # fs"]
        by (cases res) simp_all
      from insert_assignment_frame [OF i'] insert_assignment_faults(1) [OF i']
      have 2: "audit_logs_table
          (snd (post_assignments ev u payload (st\<lparr>faults := f # True # fs\<rparr>))) =
          audit_logs_table st"
        unfolding post_assignments_insert [OF f  g] i'
        by (cases res') (simp_all add: logger_def logAudit_fault)
      from 1 2 show ?thesis by simp
    qed
qed


lemma handle_create_cases:
  "ep \<in> {PostPurchases, PostTransfers, PostAssignments} \<Longrightarrow>
     (\<forall>st. handle ev ep u req st =
        (reply 403
           (Failed ''Access denied. You do not have permission to perform this action.''),
         logger Warn ''Access denied for user'' st))
     \<or> (\<forall>st. handle ev ep u req st =
          (case ep of
             PostPurchases \<Rightarrow> post_purchases ev u (body req) st
           | PostTransfers \<Rightarrow> post_transfers ev u (body req) st
           | _ \<Rightarrow> post_assignments ev u (body req) st))"
  by (cases "u_role u") (auto simp: checkRole_def)


subsection \<open>Further facts\<close>

lemma dashboard_body_dates:
  "dashboard_body ev u (q(''date_from'' := a, ''date_to'' := b)) = dashboard_body ev u q"
  by (simp add: dashboard_body_def)

lemma post_transfers_same_base_unwritten:
  assumes "bind_int ev (payload ''from_base_id'') = SqlInt b"
    and "bind_int ev (payload ''to_base_id'') = SqlInt b"
  shows "transfers_table (snd (post_transfers ev u payload st)) = transfers_table st
    \<and> status (fst (post_transfers ev u payload st)) \<in> {400, 403, 500}"
proof (cases "transfer_fields payload")
  case False
  then show ?thesis by (simp add: post_transfers_missing reply_def)
next
  case f: True
  show ?thesis
  proof (cases "strict_eq (payload ''from_base_id'') (payload ''to_base_id'')")
    case True
    with f show ?thesis by (simp add: post_transfers_same reply_def)
  next
    case ne: False
    show ?thesis
    proof (cases "u_role u \<noteq> Commander \<or> strict_eq (payload ''from_base_id'') (user_base u)
      \<or> strict_eq (payload ''to_base_id'') (user_base u)")
      case False
      with f ne show ?thesis by (simp add: post_transfers_foreign reply_def)
    next
      case g: True
      obtain res s1 where i: "insert_transfer ev (payload ''from_base_id'')
          (payload ''to_base_id'') (payload ''equipment_type_id'') (payload ''quantity'')
          (payload ''transfer_date'') (payload ''notes'') (u_id u) st = (res, s1)"
        by (meson surj_pair)
      from insert_transfer_frame [OF i] assms have "res = None"
        by (cases res) auto
      with insert_transfer_frame [OF i] show ?thesis
        unfolding post_transfers_insert [OF f ne g] i
        by (simp add: logger_def reply_def)
    qed
  qed
qed

subsection \<open>The base a payload names\<close>

text \<open>
  A value that the store reads as the base \<open>b\<close> is strictly equal to the base of a token
  only when that base is \<open>b\<close>, and two values read as different bases are not strictly
  equal.
\<close>

lemma strict_eq_same: "strict_eq x y \<Longrightarrow> x = y"
  by (cases x; cases y) simp_all

lemma foreign_base:
  assumes "bind_int ev v = SqlInt b" and "u_base_id u \<noteq> Some b"
  shows "\<not> strict_eq v (user_base u)"
proof
  assume "strict_eq v (user_base u)"
  then have "v = user_base u" by (rule strict_eq_same)
  with assms show False
    by (cases "u_base_id u") (auto simp: user_base_def bind_int_def split: if_splits)
qed

lemma different_bases:
  assumes "bind_int ev x = SqlInt f" and "bind_int ev y = SqlInt t" and "f \<noteq> t"
  shows "\<not> strict_eq x y"
  using assms strict_eq_same [of x y] by auto

lemma insert_purchase_accepted:
  assumes "fst (store_call st)"
    and "bind_int ev b = SqlInt bi" "bi \<in> base_ids st"
    and "bind_int ev e = SqlInt ei" "ei \<in> equipment_ids st"
    and "bind_int ev q = SqlInt qi" "0 < qi"
    and "uid \<in> user_ids st" "purchases_seq st \<notin> set (map p_id (purchases_table st))"
  shows "fst (insert_purchase ev b e q c d s n uid st) =
           Some \<lparr>p_id = purchases_seq st, p_base_id = bi, p_equipment_type_id = ei,
                  p_quantity = qi, p_cost = stored c, p_purchase_date = stored d,
                  p_supplier = stored s, p_notes = stored n, p_created_by = Some uid\<rparr>"
  using assms
  unfolding insert_purchase_def Let_def
  by (auto simp: store_call_def Let_def base_ids_def equipment_ids_def user_ids_def
      split: list.splits)


section \<open>The claims\<close>

text \<open>
  C1, as stated, does not hold for every non-negative total: the figures are numbers of
  JavaScript, and a sum that needs more than 53 bits is rounded. With purchases \<open>2^53\<close> and
  transferIn 3 the net movement is 9007199254740996, not 9007199254740995; with an
  opening balance of \<open>2^53\<close> and purchases 1 the closing balance is \<open>2^53\<close>, not
  \<open>2^53 + 1\<close>.
\<close>

theorem C1_rounding_counterexample:
  "netMovement (computeMetrics 0 9007199254740992 3 0 0 0) = 9007199254740996
   \<and> purchases (computeMetrics 0 9007199254740992 3 0 0 0)
       + transferIn (computeMetrics 0 9007199254740992 3 0 0 0)
       - transferOut (computeMetrics 0 9007199254740992 3 0 0 0) = 9007199254740995
   \<and> closingBalance (computeMetrics 9007199254740992 1 0 0 0 0) = 9007199254740992
   \<and> openingBalance (computeMetrics 9007199254740992 1 0 0 0 0)
       + netMovement (computeMetrics 9007199254740992 1 0 0 0 0) = 9007199254740993"
  by (simp add: computeMetrics_fields js_add_def js_sub_def js_number_rounds js_number_exact)

text \<open>
  C1, amended. For non-negative totals with \<open>openingBalance + purchases + transferIn\<close> and
  \<open>transferOut\<close> at most \<open>2^53\<close>, the computation returns
  \<open>netMovement = purchases + transferIn - transferOut\<close> and
  \<open>closingBalance = openingBalance + netMovement\<close>; the totals 665, 50, 100 and 30 give 120
  and 785. The metrics of every successful response of the endpoint, whoever asks, with
  whatever query, on whatever state of the store, are related by the sum and the difference
  of JavaScript, and by the two formulas when they are within that bound.
\<close>

theorem C1_metrics_formula:
  "(0 \<le> opn \<and> 0 \<le> bought \<and> 0 \<le> tin \<and> 0 \<le> tout
      \<and> opn + bought + tin \<le> 2 ^ 53 \<and> tout \<le> 2 ^ 53 \<longrightarrow>
      netMovement (computeMetrics opn bought tin tout active spent) = bought + tin - tout
      \<and> closingBalance (computeMetrics opn bought tin tout active spent) =
          opn + netMovement (computeMetrics opn bought tin tout active spent)
      \<and> closingBalance (computeMetrics opn bought tin tout active spent) =
          opn + bought + tin - tout)
   \<and> netMovement (computeMetrics 665 50 100 30 active spent) = 120
   \<and> closingBalance (computeMetrics 665 50 100 30 active spent) = 785
   \<and> (get_dashboard_metrics ev u q st = (r, st') \<and> content r = MetricsData m \<longrightarrow>
        netMovement m = js_sub (js_add (purchases m) (transferIn m)) (transferOut m)
        \<and> closingBalance m = js_add (openingBalance m) (netMovement m)
        \<and> (0 \<le> openingBalance m \<and> 0 \<le> purchases m \<and> 0 \<le> transferIn m
             \<and> 0 \<le> transferOut m
             \<and> openingBalance m + purchases m + transferIn m \<le> 2 ^ 53
             \<and> transferOut m \<le> 2 ^ 53 \<longrightarrow>
             netMovement m = purchases m + transferIn m - transferOut m
             \<and> closingBalance m = openingBalance m + netMovement m
             \<and> closingBalance m =
                 openingBalance m + purchases m + transferIn m - transferOut m))"
proof -
  have exact: "js_sub (js_add b c) d = b + c - d
      \<and> js_add a (b + c - d) = a + (b + c - d)"
    if "0 \<le> a" "0 \<le> b" "0 \<le> c" "0 \<le> d" "a + b + c \<le> 2 ^ 53" "d \<le> 2 ^ 53"
    for a b c d :: int
  proof -
    from that have 1: "js_add b c = b + c" by (intro js_exact) simp
    from that have 2: "js_sub (b + c) d = b + c - d" by (intro js_exact) simp
    from that have 3: "js_add a (b + c - d) = a + (b + c - d)" by (intro js_exact) simp
    from 1 2 3 show ?thesis by simp
  qed
  have resp: "netMovement m = js_sub (js_add (purchases m) (transferIn m)) (transferOut m)
        \<and> closingBalance m = js_add (openingBalance m) (netMovement m)"
    if "get_dashboard_metrics ev u q st = (r, st')" and "content r = MetricsData m"
  proof -
    from get_dashboard_metrics_data [OF that]
    obtain a b c d e f where "m = computeMetrics a b c d e f" by blast
    then show ?thesis by (simp add: computeMetrics_fields)
  qed
  have sample: "netMovement (computeMetrics 665 50 100 30 active spent) = 120
      \<and> closingBalance (computeMetrics 665 50 100 30 active spent) = 785"
    by (simp add: computeMetrics_fields js_exact)
  have first: "netMovement (computeMetrics opn bought tin tout active spent) =
        bought + tin - tout
      \<and> closingBalance (computeMetrics opn bought tin tout active spent) =
          opn + netMovement (computeMetrics opn bought tin tout active spent)
      \<and> closingBalance (computeMetrics opn bought tin tout active spent) =
          opn + bought + tin - tout"
    if "0 \<le> opn" "0 \<le> bought" "0 \<le> tin" "0 \<le> tout"
      "opn + bought + tin \<le> 2 ^ 53" "tout \<le> 2 ^ 53"
  proof -
    note e1 = exact [OF that, THEN conjunct1] and e2 = exact [OF that, THEN conjunct2]
    show ?thesis unfolding computeMetrics_fields e2 e1 by simp
  qed
  have last: "netMovement m = purchases m + transferIn m - transferOut m
             \<and> closingBalance m = openingBalance m + netMovement m
             \<and> closingBalance m =
                 openingBalance m + purchases m + transferIn m - transferOut m"
    if "get_dashboard_metrics ev u q st = (r, st')" and "content r = MetricsData m"
      and "0 \<le> openingBalance m" "0 \<le> purchases m" "0 \<le> transferIn m"
      "0 \<le> transferOut m" "openingBalance m + purchases m + transferIn m \<le> 2 ^ 53"
      "transferOut m \<le> 2 ^ 53"
  proof -
    note e1 = exact [OF that(3-8), THEN conjunct1]
      and e2 = exact [OF that(3-8), THEN conjunct2]
    from resp [OF that(1,2)] have n: "netMovement m = purchases m + transferIn m - transferOut m"
      unfolding e1 by simp
    from resp [OF that(1,2)] n
    have "closingBalance m =
        js_add (openingBalance m) (purchases m + transferIn m - transferOut m)"
      by simp
    then have "closingBalance m = openingBalance m + (purchases m + transferIn m - transferOut m)"
      unfolding e2 .
    with n show ?thesis by simp
  qed
  from first sample resp last show ?thesis by blast
qed

theorem C1_metrics_formula_witness:
  "content (fst (get_dashboard_metrics sample_env alpha_commander no_fields sample_state)) =
     MetricsData (computeMetrics 665 50 100 30 1 20)
   \<and> (0::int) \<le> 665 \<and> (0::int) \<le> 50 \<and> (0::int) \<le> 100 \<and> (0::int) \<le> 30
   \<and> (665::int) + 50 + 100 \<le> 2 ^ 53 \<and> (30::int) \<le> 2 ^ 53
   \<and> netMovement (computeMetrics 665 50 100 30 1 20) = 50 + 100 - 30
   \<and> closingBalance (computeMetrics 665 50 100 30 1 20) = 665 + 50 + 100 - 30
   \<and> netMovement (computeMetrics 665 50 100 30 1 20) = 120
   \<and> closingBalance (computeMetrics 665 50 100 30 1 20) = 785"
  using C1_metrics_formula [where ev = sample_env and u = alpha_commander and q = no_fields
      and st = sample_state
      and r = "fst (get_dashboard_metrics sample_env alpha_commander no_fields sample_state)"
      and st' = "snd (get_dashboard_metrics sample_env alpha_commander no_fields sample_state)"
      and m = "computeMetrics 665 50 100 30 1 20" and active = 1 and spent = 20
      and opn = 665 and bought = 50 and tin = 100 and tout = 30]
  by (simp add: sample_alpha_dashboard reply_def computeMetrics_def js_exact)

text \<open>
  C2. For a commander the scope is the commander's own base, whatever the request asks for:
  the base filter of the dashboard, the filter of its transfer totals and the filter of the
  list endpoints are bound to the base of the token; the dashboard and the three list
  endpoints answer a request with any query string as they answer one with no query at
  all; the figures of a successful dashboard response are the totals over the rows of the
  commander's base, as \<^verbatim>\<open>parseInt\<close> reads them, and a successful list response holds the
  rows of that base.
\<close>

theorem C2_commander_scope:
  "u_role u = Commander \<Longrightarrow>
     baseFilter u f = Some (user_base u) \<and> transfersFilter u f = Some (user_base u)
     \<and> role_filter u = Some (user_base u)
     \<and> (ep \<in> {GetDashboardMetrics, GetPurchases, GetTransfers, GetAssignments} \<longrightarrow>
          handle ev ep u (req\<lparr>query := q\<rparr>) st = handle ev ep u (req\<lparr>query := no_fields\<rparr>) st)
     \<and> (u_base_id u = Some b \<and> handle ev GetDashboardMetrics u (req\<lparr>query := q\<rparr>) st = (r, st')
          \<and> content r = MetricsData m \<longrightarrow>
          openingBalance m = parseInt
            (sum_list (map a_quantity (filter (\<lambda>r. a_base_id r = b) (assets_table st))))
          \<and> purchases m = parseInt
            (sum_list (map p_quantity (filter (\<lambda>r. p_base_id r = b) (purchases_table st))))
          \<and> transferIn m = parseInt
            (sum_list (map t_quantity (filter (\<lambda>r. t_to_base_id r = b) (transfers_table st))))
          \<and> transferOut m = parseInt
            (sum_list (map t_quantity (filter (\<lambda>r. t_from_base_id r = b) (transfers_table st))))
          \<and> assigned m = parseInt
            (int (length (filter (\<lambda>r. as_base_id r = b \<and> as_status r = ''active'')
                   (assignments_table st))))
          \<and> expended m = parseInt
            (sum_list (map e_quantity (filter (\<lambda>r. e_base_id r = b) (expenditures_table st)))))
     \<and> (u_base_id u = Some b \<and> handle ev GetPurchases u (req\<lparr>query := q\<rparr>) st = (r, st')
          \<and> status r = 200 \<longrightarrow>
          content r = PurchaseList (filter (\<lambda>p. p_base_id p = b) (joined_purchases st)))
     \<and> (u_base_id u = Some b \<and> handle ev GetTransfers u (req\<lparr>query := q\<rparr>) st = (r, st')
          \<and> status r = 200 \<longrightarrow>
          content r = TransferList
            (filter (\<lambda>t. t_from_base_id t = b \<or> t_to_base_id t = b) (joined_transfers st)))
     \<and> (u_base_id u = Some b \<and> handle ev GetAssignments u (req\<lparr>query := q\<rparr>) st = (r, st')
          \<and> status r = 200 \<longrightarrow>
          content r = AssignmentList (filter (\<lambda>a. as_base_id a = b) (joined_assignments st)))"
proof -
  assume c: "u_role u = Commander"
  have indep: "handle ev ep u (req\<lparr>query := q\<rparr>) st = handle ev ep u (req\<lparr>query := no_fields\<rparr>) st"
    if "ep \<in> {GetDashboardMetrics, GetPurchases, GetTransfers, GetAssignments}"
    using that commander_dashboard_body [OF c, of ev q no_fields]
    by (auto simp: get_dashboard_metrics_def)
  have dash: "openingBalance m = parseInt
            (sum_list (map a_quantity (filter (\<lambda>r. a_base_id r = b) (assets_table st))))
          \<and> purchases m = parseInt
            (sum_list (map p_quantity (filter (\<lambda>r. p_base_id r = b) (purchases_table st))))
          \<and> transferIn m = parseInt
            (sum_list (map t_quantity (filter (\<lambda>r. t_to_base_id r = b) (transfers_table st))))
          \<and> transferOut m = parseInt
            (sum_list (map t_quantity (filter (\<lambda>r. t_from_base_id r = b) (transfers_table st))))
          \<and> assigned m = parseInt
            (int (length (filter (\<lambda>r. as_base_id r = b \<and> as_status r = ''active'')
                   (assignments_table st))))
          \<and> expended m = parseInt
            (sum_list (map e_quantity (filter (\<lambda>r. e_base_id r = b) (expenditures_table st))))"
    if "u_base_id u = Some b" "handle ev GetDashboardMetrics u (req\<lparr>query := q\<rparr>) st = (r, st')"
      "content r = MetricsData m"
    using commander_metrics [OF c that(1) _ that(3), of ev q st st'] that(2) by simp
  have p: "content r = PurchaseList (filter (\<lambda>p. p_base_id p = b) (joined_purchases st))"
    if "u_base_id u = Some b" "handle ev GetPurchases u (req\<lparr>query := q\<rparr>) st = (r, st')"
      "status r = 200"
  proof -
    note tc = that(2) [simplified handle.simps get_purchases_def]
    from commander_list [OF c that(1) tc that(3)] show ?thesis
      by (simp add: reply_def joined_frame)
  qed
  have t: "content r = TransferList
            (filter (\<lambda>t. t_from_base_id t = b \<or> t_to_base_id t = b) (joined_transfers st))"
    if "u_base_id u = Some b" "handle ev GetTransfers u (req\<lparr>query := q\<rparr>) st = (r, st')"
      "status r = 200"
  proof -
    note tc = that(2) [simplified handle.simps get_transfers_def]
    from commander_list [OF c that(1) tc that(3)] show ?thesis
      by (simp add: reply_def joined_frame)
  qed
  have a: "content r = AssignmentList (filter (\<lambda>a. as_base_id a = b) (joined_assignments st))"
    if "u_base_id u = Some b" "handle ev GetAssignments u (req\<lparr>query := q\<rparr>) st = (r, st')"
      "status r = 200"
  proof -
    note tc = that(2) [simplified handle.simps get_assignments_def]
    from commander_list [OF c that(1) tc that(3)] show ?thesis
      by (simp add: reply_def joined_frame)
  qed
  from indep dash p t a show ?thesis
    by (simp add: commander_filters [OF c])
qed

theorem C2_commander_scope_witness:
  "u_role alpha_commander = Commander
   \<and> fst (handle sample_env GetDashboardMetrics alpha_commander
        (sample_request ''token-alpha'' (no_fields(''base_id'' := JStr ''2'')) no_fields)
        sample_state) =
      reply 200 (MetricsData
        \<lparr>openingBalance = 665, closingBalance = 785, netMovement = 120, purchases = 50,
         transferIn = 100, transferOut = 30, assigned = 1, expended = 20\<rparr>)
   \<and> fst (handle sample_env GetPurchases alpha_commander
        (sample_request ''token-alpha'' (no_fields(''base_id'' := JStr ''2'')) no_fields)
        sample_state) =
      reply 200 (PurchaseList [sample_purchase 1 1 1 50])"
proof -
  let ?req = "sample_request ''token-alpha'' no_fields no_fields"
  let ?q = "no_fields(''base_id'' := JStr ''2'')"
  have c: "u_role alpha_commander = Commander"
    by (simp add: alpha_commander_def)
  have same: "handle sample_env GetDashboardMetrics alpha_commander
          (sample_request ''token-alpha'' ?q no_fields) sample_state =
        handle sample_env GetDashboardMetrics alpha_commander ?req sample_state"
    "handle sample_env GetPurchases alpha_commander
          (sample_request ''token-alpha'' ?q no_fields) sample_state =
        handle sample_env GetPurchases alpha_commander ?req sample_state"
    using C2_commander_scope [OF c, where ep = GetDashboardMetrics and ev = sample_env
        and req = ?req and q = ?q and st = sample_state]
      C2_commander_scope [OF c, where ep = GetPurchases and ev = sample_env
        and req = ?req and q = ?q and st = sample_state]
    by (simp_all add: sample_request_def del: handle.simps)
  have list: "fst (handle sample_env GetPurchases alpha_commander ?req sample_state) =
      reply 200 (PurchaseList [sample_purchase 1 1 1 50])"
    by (simp add: sample_defs get_purchases_def role_filter_def joined_purchases_def
        select_where_def user_base_def route_eval)
  from same c sample_alpha_dashboard list show ?thesis
    by (simp add: sample_request_def)
qed

text \<open>
  C3. A create-Transfer from a base to that same base is to be rejected with the error of
  the same-base check, whoever sends it, and no row written. The handler compares the two
  values of the payload with \<^verbatim>\<open>===\<close>, so it sees the same base only when both are sent
  in the same representation. A logistics user who sends base 1 as the number 1 in
  \<open>from_base_id\<close> and as the string \<open>''1''\<close> in \<open>to_base_id\<close>, with every required field
  present, passes the check; the INSERT reaches the store, which reads both values as
  base 1, draws an id from the sequence and refuses the row by its CHECK; the handler
  answers 500 with the message of a failed store, not 400. The same request with the
  number 1 in both fields is answered 400 by the same-base check and does not reach the
  store. In both cases the table of transfers is as it was.
\<close>

theorem C3_same_base_two_representations:
  "transfer_fields (sample_transfer_payload (JNum 1) (JStr ''1''))
   \<and> bind_int sample_env (JNum 1) = SqlInt 1 \<and> bind_int sample_env (JStr ''1'') = SqlInt 1
   \<and> \<not> strict_eq (JNum 1) (JStr ''1'')
   \<and> route sample_env PostTransfers
        (sample_request ''token-logistics'' no_fields
           (sample_transfer_payload (JNum 1) (JStr ''1''))) sample_state =
      (reply 500 (Failed ''Failed to create transfer record''),
       sample_state\<lparr>transfers_seq := 5, store_calls := 1,
                     oplog := [(Error, ''Create transfer error:'')]\<rparr>)
   \<and> route sample_env PostTransfers
        (sample_request ''token-logistics'' no_fields
           (sample_transfer_payload (JNum 1) (JNum 1))) sample_state =
      (reply 400 (Failed ''Cannot transfer to the same base''), sample_state)"
  by (simp add: sample_transfer_payload_def transfer_fields_def sample_defs
      post_transfers_def insert_transfer_def route_eval)

text \<open>
  C4, as stated, does not hold for every payload. A commander's create-Purchase for another
  base that lacks a required field is stopped by the presence check with status 400, before
  the base is looked at; and a commander's create-Transfer from a base to the same base,
  not the commander's own, is stopped by the same-base check with status 400.
\<close>

theorem C4_earlier_checks_counterexample:
  "u_role alpha_commander = Commander \<and> u_base_id alpha_commander = Some 1
   \<and> bind_int sample_env (JNum 2) = SqlInt 2
   \<and> handle sample_env PostPurchases alpha_commander
        (sample_request ''token-alpha'' no_fields (no_fields(''base_id'' := JNum 2)))
        sample_state =
      (reply 400
         (Failed ''Required fields: base_id, equipment_type_id, quantity, purchase_date''),
       sample_state)
   \<and> bind_int sample_env (JNum 3) = SqlInt 3
   \<and> handle sample_env PostTransfers alpha_commander
        (sample_request ''token-alpha'' no_fields (sample_transfer_payload (JNum 3) (JNum 3)))
        sample_state =
      (reply 400 (Failed ''Cannot transfer to the same base''), sample_state)"
  by (simp add: sample_transfer_payload_def sample_defs post_purchases_def post_transfers_def
      route_eval)

text \<open>
  C4, amended. For a commander: a create-Purchase or create-Assignment with all required
  fields present that names a base other than the commander's own is rejected with 403 and
  the state is left as it was; so is a create-Transfer with all required fields present
  that names two different bases, neither of them the commander's. For an admin, a
  create-Purchase with all required fields present succeeds for any existing base: when
  the payload names an equipment type that exists and a quantity above 0, the acting user
  is a row of the users table, the next id of the sequence is free and the store executes
  the INSERT, the answer is 201 with the new row, which carries that base and is appended
  to the table.
\<close>

theorem C4_commander_own_base_writes:
  "u_role u = Commander \<Longrightarrow>
     (purchase_fields (body req) \<and> bind_int ev (body req ''base_id'') = SqlInt b
        \<and> u_base_id u \<noteq> Some b \<longrightarrow>
        handle ev PostPurchases u req st =
          (reply 403 (Failed ''You can only create purchases for your assigned base''), st))
     \<and> (assignment_fields (body req) \<and> bind_int ev (body req ''base_id'') = SqlInt b
        \<and> u_base_id u \<noteq> Some b \<longrightarrow>
        handle ev PostAssignments u req st =
          (reply 403 (Failed ''You can only create assignments for your assigned base''), st))
     \<and> (transfer_fields (body req)
        \<and> bind_int ev (body req ''from_base_id'') = SqlInt f
        \<and> bind_int ev (body req ''to_base_id'') = SqlInt t
        \<and> f \<noteq> t \<and> u_base_id u \<noteq> Some f \<and> u_base_id u \<noteq> Some t \<longrightarrow>
        handle ev PostTransfers u req st =
          (reply 403 (Failed ''You can only create transfers involving your assigned base''), st))
     \<and> (u_role a = Admin \<and> purchase_fields (body req)
        \<and> bind_int ev (body req ''base_id'') = SqlInt b \<and> b \<in> base_ids st
        \<and> bind_int ev (body req ''equipment_type_id'') = SqlInt e \<and> e \<in> equipment_ids st
        \<and> bind_int ev (body req ''quantity'') = SqlInt n \<and> 0 < n
        \<and> u_id a \<in> user_ids st
        \<and> purchases_seq st \<notin> set (map p_id (purchases_table st))
        \<and> fst (store_call st) \<longrightarrow>
        fst (handle ev PostPurchases a req st) =
          reply 201 (PurchaseCreated
            \<lparr>p_id = purchases_seq st, p_base_id = b, p_equipment_type_id = e,
             p_quantity = n, p_cost = stored (body req ''cost''),
             p_purchase_date = stored (body req ''purchase_date''),
             p_supplier = stored (body req ''supplier''),
             p_notes = stored (body req ''notes''), p_created_by = Some (u_id a)\<rparr>)
        \<and> purchases_table (snd (handle ev PostPurchases a req st)) =
            purchases_table st @
              [\<lparr>p_id = purchases_seq st, p_base_id = b, p_equipment_type_id = e,
                p_quantity = n, p_cost = stored (body req ''cost''),
                p_purchase_date = stored (body req ''purchase_date''),
                p_supplier = stored (body req ''supplier''),
                p_notes = stored (body req ''notes''), p_created_by = Some (u_id a)\<rparr>])"
proof -
  assume c: "u_role u = Commander"
  then have nl: "u_role u \<noteq> Logistics" by simp
  let ?row = "\<lparr>p_id = purchases_seq st, p_base_id = b, p_equipment_type_id = e,
             p_quantity = n, p_cost = stored (body req ''cost''),
             p_purchase_date = stored (body req ''purchase_date''),
             p_supplier = stored (body req ''supplier''),
             p_notes = stored (body req ''notes''), p_created_by = Some (u_id a)\<rparr>"
  have pur: "handle ev PostPurchases u req st =
          (reply 403 (Failed ''You can only create purchases for your assigned base''), st)"
    if "purchase_fields (body req)" "bind_int ev (body req ''base_id'') = SqlInt b"
      "u_base_id u \<noteq> Some b"
    unfolding handle_create_admin_commander(1) [OF nl]
    using post_purchases_foreign [OF that(1) c foreign_base [OF that(2,3)]] .
  have asg: "handle ev PostAssignments u req st =
          (reply 403 (Failed ''You can only create assignments for your assigned base''), st)"
    if "assignment_fields (body req)" "bind_int ev (body req ''base_id'') = SqlInt b"
      "u_base_id u \<noteq> Some b"
    unfolding handle_create_admin_commander(2) [OF nl]
    using post_assignments_foreign [OF that(1) c foreign_base [OF that(2,3)]] .
  have tra: "handle ev PostTransfers u req st =
          (reply 403 (Failed ''You can only create transfers involving your assigned base''), st)"
    if "transfer_fields (body req)" "bind_int ev (body req ''from_base_id'') = SqlInt f"
      "bind_int ev (body req ''to_base_id'') = SqlInt t" "f \<noteq> t"
      "u_base_id u \<noteq> Some f" "u_base_id u \<noteq> Some t"
  proof -
    have "handle ev PostTransfers u req st = post_transfers ev u (body req) st"
      by (cases "u_role u") (simp_all add: checkRole_def)
    with post_transfers_foreign [OF that(1) different_bases [OF that(2,3,4)] c
        foreign_base [OF that(2,5)] foreign_base [OF that(3,6)]]
    show ?thesis by simp
  qed
  have adm: "fst (handle ev PostPurchases a req st) = reply 201 (PurchaseCreated ?row)
        \<and> purchases_table (snd (handle ev PostPurchases a req st)) =
            purchases_table st @ [?row]"
    if a: "u_role a = Admin" and fl: "purchase_fields (body req)"
      and ok: "bind_int ev (body req ''base_id'') = SqlInt b" "b \<in> base_ids st"
        "bind_int ev (body req ''equipment_type_id'') = SqlInt e" "e \<in> equipment_ids st"
        "bind_int ev (body req ''quantity'') = SqlInt n" "0 < n"
        "u_id a \<in> user_ids st" "purchases_seq st \<notin> set (map p_id (purchases_table st))"
      and run: "fst (store_call st)"
  proof -
    obtain res s1 where i: "insert_purchase ev (body req ''base_id'')
        (body req ''equipment_type_id'') (body req ''quantity'') (body req ''cost'')
        (body req ''purchase_date'') (body req ''supplier'') (body req ''notes'') (u_id a) st
        = (res, s1)"
      by (meson surj_pair)
    from insert_purchase_accepted [OF run ok, of "body req ''cost''"
        "body req ''purchase_date''" "body req ''supplier''" "body req ''notes''"] i
    have res: "res = Some ?row" by simp
    from a have na: "u_role a \<noteq> Logistics"
      and g: "u_role a \<noteq> Commander \<or> strict_eq (body req ''base_id'') (user_base a)"
      by simp_all
    from insert_purchase_frame [OF i] res show ?thesis
      unfolding handle_create_admin_commander(1) [OF na] post_purchases_insert [OF fl g] i
      by (simp add: logger_def logAudit_frame)
  qed
  from pur asg tra adm show ?thesis by blast
qed

theorem C4_commander_own_base_writes_witness:
  "u_role alpha_commander = Commander \<and> u_role admin_user = Admin
   \<and> u_base_id alpha_commander \<noteq> Some 2
   \<and> purchase_fields (sample_purchase_payload (JNum 2))
   \<and> bind_int sample_env (JNum 2) = SqlInt 2 \<and> 2 \<in> base_ids sample_state
   \<and> fst (store_call sample_state)
   \<and> handle sample_env PostPurchases alpha_commander
        (sample_request ''token-alpha'' no_fields (sample_purchase_payload (JNum 2)))
        sample_state =
      (reply 403 (Failed ''You can only create purchases for your assigned base''),
       sample_state)
   \<and> fst (handle sample_env PostPurchases admin_user
        (sample_request ''token-alpha'' no_fields (sample_purchase_payload (JNum 2)))
        sample_state) =
      reply 201 (PurchaseCreated
        \<lparr>p_id = 3, p_base_id = 2, p_equipment_type_id = 1, p_quantity = 4, p_cost = JNull,
         p_purchase_date = JStr ''2024-05-01'', p_supplier = JNull, p_notes = JNull,
         p_created_by = Some 1\<rparr>)"
proof -
  let ?req = "sample_request ''token-alpha'' no_fields (sample_purchase_payload (JNum 2))"
  have c: "u_role alpha_commander = Commander" and a: "u_role admin_user = Admin"
    and ob: "u_base_id alpha_commander \<noteq> Some 2"
    by (simp_all add: alpha_commander_def admin_user_def)
  have fl: "purchase_fields (body ?req)"
    by (simp add: sample_request_def sample_purchase_payload_def purchase_fields_def)
  have bd: "body ?req = sample_purchase_payload (JNum 2)"
    by (simp add: sample_request_def)
  have ok: "bind_int sample_env (body ?req ''base_id'') = SqlInt 2" "2 \<in> base_ids sample_state"
    "bind_int sample_env (body ?req ''equipment_type_id'') = SqlInt 1"
    "1 \<in> equipment_ids sample_state"
    "bind_int sample_env (body ?req ''quantity'') = SqlInt 4" "(0::int) < 4"
    "u_id admin_user \<in> user_ids sample_state"
    "purchases_seq sample_state \<notin> set (map p_id (purchases_table sample_state))"
    "fst (store_call sample_state)"
    by (simp_all add: sample_purchase_payload_def sample_defs bind_int_def in_int4_def
        base_ids_def equipment_ids_def user_ids_def store_call_def)
  have v: "stored (body ?req ''cost'') = JNull" "stored (body ?req ''supplier'') = JNull"
    "stored (body ?req ''notes'') = JNull"
    "stored (body ?req ''purchase_date'') = JStr ''2024-05-01''"
    "purchases_seq sample_state = 3" "u_id admin_user = 1"
    by (simp_all add: sample_purchase_payload_def sample_defs stored_def)
  from C4_commander_own_base_writes [OF c, where req = ?req and ev = sample_env
      and st = sample_state and a = admin_user and b = 2 and e = 1 and n = 4]
    a c ob fl ok
  have "handle sample_env PostPurchases alpha_commander ?req sample_state =
      (reply 403 (Failed ''You can only create purchases for your assigned base''),
       sample_state)"
    and "fst (handle sample_env PostPurchases admin_user ?req sample_state) =
      reply 201 (PurchaseCreated
        \<lparr>p_id = purchases_seq sample_state, p_base_id = 2, p_equipment_type_id = 1,
         p_quantity = 4, p_cost = stored (body ?req ''cost''),
         p_purchase_date = stored (body ?req ''purchase_date''),
         p_supplier = stored (body ?req ''supplier''),
         p_notes = stored (body ?req ''notes''), p_created_by = Some (u_id admin_user)\<rparr>)"
    by (simp_all del: handle.simps)
  moreover have "bind_int sample_env (JNum 2) = SqlInt 2"
    by (simp add: bind_int_def in_int4_def)
  ultimately show ?thesis
    using a c ob fl ok(2,9) unfolding v by (simp add: bd del: handle.simps)
qed

text \<open>
  C5, as stated, does not hold: \<open>checkRole\<close> runs before the handler, so a logistics user
  who posts a purchase with required fields missing gets 403, not 400.
\<close>

theorem C5_logistics_counterexample:
  "u_role logistics_user = Logistics
   \<and> \<not> purchase_fields no_fields
   \<and> status (fst (handle sample_env PostPurchases logistics_user
        (sample_request ''token-logistics'' no_fields no_fields) sample_state)) = 403"
  by (simp add: logistics_user_def purchase_fields_def no_fields_def checkRole_def reply_def)

text \<open>
  C5, amended. The role check comes first: a logistics user's create-Purchase or
  create-Assignment is rejected with 403 whatever the payload. For the roles the route
  admits (admin and commander for purchases and assignments, every role for transfers) a
  payload with a required field missing is rejected with 400 and the state is left as it
  was, whatever base it names: the presence check precedes the base-ownership check.
\<close>

theorem C5_role_check_first:
  "(u_role u = Logistics \<longrightarrow>
      handle ev PostPurchases u req st =
        (reply 403
           (Failed ''Access denied. You do not have permission to perform this action.''),
         logger Warn ''Access denied for user'' st)
      \<and> handle ev PostAssignments u req st =
        (reply 403
           (Failed ''Access denied. You do not have permission to perform this action.''),
         logger Warn ''Access denied for user'' st))
   \<and> (u_role u \<noteq> Logistics \<and> \<not> purchase_fields (body req) \<longrightarrow>
      handle ev PostPurchases u req st =
        (reply 400
           (Failed ''Required fields: base_id, equipment_type_id, quantity, purchase_date''),
         st))
   \<and> (u_role u \<noteq> Logistics \<and> \<not> assignment_fields (body req) \<longrightarrow>
      handle ev PostAssignments u req st =
        (reply 400
           (Failed ''Required fields: base_id, equipment_type_id, personnel_id, assignment_date''),
         st))
   \<and> (\<not> transfer_fields (body req) \<longrightarrow>
      handle ev PostTransfers u req st =
        (reply 400
           (Failed ''Required fields: from_base_id, to_base_id, equipment_type_id, quantity, transfer_date''),
         st))"
  by (simp add: handle_create_admin_commander handle_create_logistics post_purchases_missing
      post_assignments_missing post_transfers_missing del: handle.simps)

theorem C5_role_check_first_witness:
  "u_role alpha_commander \<noteq> Logistics \<and> u_role logistics_user = Logistics
   \<and> \<not> purchase_fields (no_fields(''base_id'' := JNum 2))
   \<and> handle sample_env PostPurchases alpha_commander
        (sample_request ''token-alpha'' no_fields (no_fields(''base_id'' := JNum 2)))
        sample_state =
      (reply 400
         (Failed ''Required fields: base_id, equipment_type_id, quantity, purchase_date''),
       sample_state)
   \<and> handle sample_env PostPurchases logistics_user
        (sample_request ''token-alpha'' no_fields (no_fields(''base_id'' := JNum 2)))
        sample_state =
      (reply 403
         (Failed ''Access denied. You do not have permission to perform this action.''),
       logger Warn ''Access denied for user'' sample_state)"
proof -
  let ?req = "sample_request ''token-alpha'' no_fields (no_fields(''base_id'' := JNum 2))"
  have r: "u_role alpha_commander \<noteq> Logistics" "u_role logistics_user = Logistics"
    by (simp_all add: alpha_commander_def logistics_user_def)
  have f: "\<not> purchase_fields (body ?req)"
    by (simp add: sample_request_def purchase_fields_def no_fields_def)
  from C5_role_check_first [of alpha_commander sample_env ?req sample_state]
    C5_role_check_first [of logistics_user sample_env ?req sample_state] r f
  show ?thesis
    by (simp add: sample_request_def del: handle.simps)
qed

text \<open>
  C6. A logistics user's create-Purchase is rejected with 403 whatever the payload; nothing
  is written and the store is not called. The role check of create-Transfer lets a
  logistics user through to the handler, whose answer to this user is never 403.
\<close>

theorem C6_logistics_writes:
  "u_role u = Logistics \<Longrightarrow>
     handle ev PostPurchases u req st =
       (reply 403
          (Failed ''Access denied. You do not have permission to perform this action.''),
        logger Warn ''Access denied for user'' st)
     \<and> purchases_table (snd (handle ev PostPurchases u req st)) = purchases_table st
     \<and> store_calls (snd (handle ev PostPurchases u req st)) = store_calls st
     \<and> handle ev PostTransfers u req st = post_transfers ev u (body req) st
     \<and> status (fst (handle ev PostTransfers u req st)) \<noteq> 403"
  using post_transfers_not_403 [of u ev "body req" st]
  by (simp add: handle_create_admin_commander handle_create_logistics logger_def
      del: handle.simps)

theorem C6_logistics_writes_witness:
  "u_role logistics_user = Logistics
   \<and> status (fst (handle sample_env PostPurchases logistics_user
        (sample_request ''token-logistics'' no_fields (sample_purchase_payload (JNum 4)))
        sample_state)) = 403
   \<and> status (fst (handle sample_env PostTransfers logistics_user
        (sample_request ''token-logistics'' no_fields
           (sample_transfer_payload (JNum 1) (JNum 2))) sample_state)) = 201"
proof -
  have l: "u_role logistics_user = Logistics"
    by (simp add: logistics_user_def)
  have "status (fst (post_transfers sample_env logistics_user
          (sample_transfer_payload (JNum 1) (JNum 2)) sample_state)) = 201"
    by (simp add: sample_transfer_payload_def sample_defs post_transfers_def
        insert_transfer_def route_eval)
  with C6_logistics_writes [OF l, of sample_env
      "sample_request ''token-logistics'' no_fields (sample_purchase_payload (JNum 4))"
      sample_state]
    C6_logistics_writes [OF l, of sample_env
      "sample_request ''token-logistics'' no_fields
         (sample_transfer_payload (JNum 1) (JNum 2))" sample_state]
    l
  show ?thesis
    by (simp add: sample_request_def reply_def del: handle.simps)
qed

text \<open>
  C7 does not hold of the code. The filter of the two transfer totals asks only whether a
  \<open>base_id\<close> was supplied, not whether the user is an admin, as the filter of the other
  four totals does. For the logistics user of the sample installation, the request without
  a filter reports transfers of 133 in and 133 out; the request with \<open>base_id = 2\<close> reports
  30 in and 3 out, beside the same unrestricted assets, purchases, assignments and
  expenditures.
\<close>

theorem C7_logistics_base_filter_reaches_transfers:
  "u_role logistics_user = Logistics
   \<and> fst (handle sample_env GetDashboardMetrics logistics_user
        (sample_request ''token-logistics'' no_fields no_fields) sample_state) =
      reply 200 (MetricsData
        \<lparr>openingBalance = 1365, closingBalance = 1420, netMovement = 55, purchases = 55,
         transferIn = 133, transferOut = 133, assigned = 2, expended = 27\<rparr>)
   \<and> fst (handle sample_env GetDashboardMetrics logistics_user
        (sample_request ''token-logistics'' (no_fields(''base_id'' := JStr ''2'')) no_fields)
        sample_state) =
      reply 200 (MetricsData
        \<lparr>openingBalance = 1365, closingBalance = 1447, netMovement = 82, purchases = 55,
         transferIn = 30, transferOut = 3, assigned = 2, expended = 27\<rparr>)"
  by (simp add: sample_defs dashboard_eval)

text \<open>
  C8, as stated, does not hold for an invalid token: \<open>authenticateToken\<close> answers it with
  status 403, the status of a denied permission, and only a missing token with 401.
\<close>

theorem C8_invalid_token_counterexample:
  "jwt_verify sample_env ''forged'' = None
   \<and> route sample_env GetPurchases (sample_request ''forged'' no_fields no_fields)
        sample_state =
      (reply 403 (Failed ''Invalid or expired token. Please login again.''), sample_state)
   \<and> status (fst (route sample_env GetPurchases (sample_request ''forged'' no_fields no_fields)
        sample_state)) \<noteq> 401"
  by (simp add: sample_env_def sample_request_def route_def authenticateToken_def token_of_def
      reply_def)

text \<open>
  C8, amended. On every route except the login and the health check, a request without a
  token (no Authorization header, a header with no second word, or an empty one) is
  answered with 401, and a request whose token \<^verbatim>\<open>jwt.verify\<close> rejects is answered with 403
  and the message of an invalid or expired token. In both cases the answer comes from
  \<open>authenticateToken\<close> whatever the route, the query and the payload are, and the state is
  left as it was: no role check, no handler, no store call, no log entry. The health check
  answers 200 without a token.
\<close>

theorem C8_token_gate:
  "ep \<noteq> PostLogin \<Longrightarrow> ep \<noteq> GetHealth \<Longrightarrow>
     (token_of (authorization req) = None \<or> token_of (authorization req) = Some [] \<longrightarrow>
        route ev ep req st =
          (reply 401 (Failed ''Access token required. Please login to continue.''), st))
     \<and> (authorization req = None \<longrightarrow>
        route ev ep req st =
          (reply 401 (Failed ''Access token required. Please login to continue.''), st))
     \<and> (token_of (authorization req) = Some t \<and> t \<noteq> [] \<and> jwt_verify ev t = None \<longrightarrow>
        route ev ep req st =
          (reply 403 (Failed ''Invalid or expired token. Please login again.''), st))
     \<and> route ev GetHealth req st = (reply 200 ServerRunning, st)"
  by (auto simp: route_def authenticateToken_def token_of_def get_health_def)

theorem C8_token_gate_witness:
  "PostPurchases \<noteq> PostLogin \<and> PostPurchases \<noteq> GetHealth
   \<and> route sample_env PostPurchases
        \<lparr>authorization = None, query = no_fields, body = sample_purchase_payload (JNum 1)\<rparr>
        sample_state =
      (reply 401 (Failed ''Access token required. Please login to continue.''), sample_state)
   \<and> route sample_env PostPurchases
        (sample_request ''forged'' no_fields (sample_purchase_payload (JNum 1))) sample_state =
      (reply 403 (Failed ''Invalid or expired token. Please login again.''), sample_state)"
proof -
  have t: "token_of (authorization (sample_request ''forged'' no_fields
      (sample_purchase_payload (JNum 1)))) = Some ''forged''"
    by (simp add: sample_request_def token_of_def)
  have v: "jwt_verify sample_env ''forged'' = None"
    by (simp add: sample_env_def)
  from C8_token_gate [of PostPurchases
      "\<lparr>authorization = None, query = no_fields, body = sample_purchase_payload (JNum 1)\<rparr>"
      sample_env sample_state]
    C8_token_gate [of PostPurchases
      "sample_request ''forged'' no_fields (sample_purchase_payload (JNum 1))"
      sample_env sample_state "''forged''"] t v
  show ?thesis by simp
qed

text \<open>
  C9. A create that answers 201 has appended the created row to its table and has gone
  through the audit INSERT before it answered. When the store executes that INSERT (the
  second store call of the request is not scheduled to fail, and the id the sequence of
  the audit log hands out is free), exactly one entry has joined the audit log: action
  CREATE, the type and the id of the created row, the id of the acting user, the details
  of the payload; the log of operations gains the line of the audit and the line of the
  create. When the store does not execute it, the audit log is as it was, the failure is
  logged at level \<open>Error\<close>, and the answer is 201 all the same. The failure of the audit
  write does not reach the caller: whether the second store call of a create request is
  scheduled to fail or not, the response is the same, and when it is scheduled to fail the
  audit log is unchanged.
\<close>

theorem C9_audit_entry_per_create:
  "(handle ev PostPurchases u req st = (r, st') \<and> status r = 201 \<longrightarrow>
      (\<exists>row. content r = PurchaseCreated row
         \<and> purchases_table st' = purchases_table st @ [row]
         \<and> (if fst (store_call (snd (store_call st)))
                \<and> audit_logs_seq st \<notin> set (map al_id (audit_logs_table st))
             then audit_logs_table st' = audit_logs_table st @
                    [\<lparr>al_id = audit_logs_seq st, al_user_id = Some (u_id u),
                      al_action = ''CREATE'', al_entity_type = ''PURCHASE'',
                      al_entity_id = Some (p_id row),
                      al_details = [(''base_id'', body req ''base_id''),
                        (''equipment_type_id'', body req ''equipment_type_id''),
                        (''quantity'', body req ''quantity''), (''cost'', body req ''cost'')]\<rparr>]
                  \<and> oplog st' = oplog st @
                        [(Info, ''Audit Log:''), (Info, ''New purchase created:'')]
             else audit_logs_table st' = audit_logs_table st
                  \<and> oplog st' = oplog st @
                        [(Error, ''Failed to create audit log:''),
                         (Info, ''New purchase created:'')])))
   \<and> (handle ev PostTransfers u req st = (r, st') \<and> status r = 201 \<longrightarrow>
      (\<exists>row. content r = TransferCreated row
         \<and> transfers_table st' = transfers_table st @ [row]
         \<and> (if fst (store_call (snd (store_call st)))
                \<and> audit_logs_seq st \<notin> set (map al_id (audit_logs_table st))
             then audit_logs_table st' = audit_logs_table st @
                    [\<lparr>al_id = audit_logs_seq st, al_user_id = Some (u_id u),
                      al_action = ''CREATE'', al_entity_type = ''TRANSFER'',
                      al_entity_id = Some (t_id row),
                      al_details = [(''from_base_id'', body req ''from_base_id''),
                        (''to_base_id'', body req ''to_base_id''),
                        (''equipment_type_id'', body req ''equipment_type_id''),
                        (''quantity'', body req ''quantity'')]\<rparr>]
                  \<and> oplog st' = oplog st @
                        [(Info, ''Audit Log:''), (Info, ''New transfer created:'')]
             else audit_logs_table st' = audit_logs_table st
                  \<and> oplog st' = oplog st @
                        [(Error, ''Failed to create audit log:''),
                         (Info, ''New transfer created:'')])))
   \<and> (handle ev PostAssignments u req st = (r, st') \<and> status r = 201 \<longrightarrow>
      (\<exists>row. content r = AssignmentCreated row
         \<and> assignments_table st' = assignments_table st @ [row]
         \<and> (if fst (store_call (snd (store_call st)))
                \<and> audit_logs_seq st \<notin> set (map al_id (audit_logs_table st))
             then audit_logs_table st' = audit_logs_table st @
                    [\<lparr>al_id = audit_logs_seq st, al_user_id = Some (u_id u),
                      al_action = ''CREATE'', al_entity_type = ''ASSIGNMENT'',
                      al_entity_id = Some (as_id row),
                      al_details = [(''base_id'', body req ''base_id''),
                        (''equipment_type_id'', body req ''equipment_type_id''),
                        (''personnel_id'', body req ''personnel_id''),
                        (''serial_number'', body req ''serial_number'')]\<rparr>]
                  \<and> oplog st' = oplog st @
                        [(Info, ''Audit Log:''), (Info, ''New assignment created:'')]
             else audit_logs_table st' = audit_logs_table st
                  \<and> oplog st' = oplog st @
                        [(Error, ''Failed to create audit log:''),
                         (Info, ''New assignment created:'')])))
   \<and> (ep \<in> {PostPurchases, PostTransfers, PostAssignments} \<longrightarrow>
        fst (handle ev ep u req (st\<lparr>faults := f # a # fs\<rparr>)) =
        fst (handle ev ep u req (st\<lparr>faults := f # a' # fs\<rparr>))
        \<and> audit_logs_table (snd (handle ev ep u req (st\<lparr>faults := f # True # fs\<rparr>))) =
            audit_logs_table st)"
proof -
  have p: "post_purchases ev u (body req) st = (r, st')"
    if "handle ev PostPurchases u req st = (r, st')" and "status r = 201"
    using that by (auto simp: checkRole_def reply_def split: if_splits)
  have t: "post_transfers ev u (body req) st = (r, st')"
    if "handle ev PostTransfers u req st = (r, st')" and "status r = 201"
    using that by (auto simp: checkRole_def reply_def split: if_splits)
  have a: "post_assignments ev u (body req) st = (r, st')"
    if "handle ev PostAssignments u req st = (r, st')" and "status r = 201"
    using that by (auto simp: checkRole_def reply_def split: if_splits)
  have i: "fst (handle ev ep u req (st\<lparr>faults := f # a # fs\<rparr>)) =
        fst (handle ev ep u req (st\<lparr>faults := f # a' # fs\<rparr>))
        \<and> audit_logs_table (snd (handle ev ep u req (st\<lparr>faults := f # True # fs\<rparr>))) =
            audit_logs_table st"
    if e: "ep \<in> {PostPurchases, PostTransfers, PostAssignments}"
    using handle_create_cases [OF e, of ev u req]
  proof
    assume "\<forall>st. handle ev ep u req st =
        (reply 403
           (Failed ''Access denied. You do not have permission to perform this action.''),
         logger Warn ''Access denied for user'' st)"
    then show ?thesis by (simp add: logger_def)
  next
    assume "\<forall>st. handle ev ep u req st =
          (case ep of
             PostPurchases \<Rightarrow> post_purchases ev u (body req) st
           | PostTransfers \<Rightarrow> post_transfers ev u (body req) st
           | _ \<Rightarrow> post_assignments ev u (body req) st)"
    with e post_purchases_audit_fault [where ev = ev and u = u and payload = "body req" and st = st
        and f = f and a = a and fs = fs and a' = a']
      post_transfers_audit_fault [where ev = ev and u = u and payload = "body req" and st = st
        and f = f and a = a and fs = fs and a' = a']
      post_assignments_audit_fault [where ev = ev and u = u and payload = "body req" and st = st
        and f = f and a = a and fs = fs and a' = a']
    show ?thesis by auto
  qed
  show ?thesis
  proof (intro conjI impI)
    assume h: "handle ev PostPurchases u req st = (r, st') \<and> status r = 201"
    then have "status r = 201" by simp
    from post_purchases_audited [OF p [OF h [THEN conjunct1] this] this]
    show "\<exists>row. content r = PurchaseCreated row
         \<and> purchases_table st' = purchases_table st @ [row]
         \<and> (if fst (store_call (snd (store_call st)))
                \<and> audit_logs_seq st \<notin> set (map al_id (audit_logs_table st))
             then audit_logs_table st' = audit_logs_table st @
                    [\<lparr>al_id = audit_logs_seq st, al_user_id = Some (u_id u),
                      al_action = ''CREATE'', al_entity_type = ''PURCHASE'',
                      al_entity_id = Some (p_id row),
                      al_details = [(''base_id'', body req ''base_id''),
                        (''equipment_type_id'', body req ''equipment_type_id''),
                        (''quantity'', body req ''quantity''), (''cost'', body req ''cost'')]\<rparr>]
                  \<and> oplog st' = oplog st @
                        [(Info, ''Audit Log:''), (Info, ''New purchase created:'')]
             else audit_logs_table st' = audit_logs_table st
                  \<and> oplog st' = oplog st @
                        [(Error, ''Failed to create audit log:''),
                         (Info, ''New purchase created:'')])" .
  next
    assume h: "handle ev PostTransfers u req st = (r, st') \<and> status r = 201"
    then have "status r = 201" by simp
    from post_transfers_audited [OF t [OF h [THEN conjunct1] this] this]
    show "\<exists>row. content r = TransferCreated row
         \<and> transfers_table st' = transfers_table st @ [row]
         \<and> (if fst (store_call (snd (store_call st)))
                \<and> audit_logs_seq st \<notin> set (map al_id (audit_logs_table st))
             then audit_logs_table st' = audit_logs_table st @
                    [\<lparr>al_id = audit_logs_seq st, al_user_id = Some (u_id u),
                      al_action = ''CREATE'', al_entity_type = ''TRANSFER'',
                      al_entity_id = Some (t_id row),
                      al_details = [(''from_base_id'', body req ''from_base_id''),
                        (''to_base_id'', body req ''to_base_id''),
                        (''equipment_type_id'', body req ''equipment_type_id''),
                        (''quantity'', body req ''quantity'')]\<rparr>]
                  \<and> oplog st' = oplog st @
                        [(Info, ''Audit Log:''), (Info, ''New transfer created:'')]
             else audit_logs_table st' = audit_logs_table st
                  \<and> oplog st' = oplog st @
                        [(Error, ''Failed to create audit log:''),
                         (Info, ''New transfer created:'')])" .
  next
    assume h: "handle ev PostAssignments u req st = (r, st') \<and> status r = 201"
    then have "status r = 201" by simp
    from post_assignments_audited [OF a [OF h [THEN conjunct1] this] this]
    show "\<exists>row. content r = AssignmentCreated row
         \<and> assignments_table st' = assignments_table st @ [row]
         \<and> (if fst (store_call (snd (store_call st)))
                \<and> audit_logs_seq st \<notin> set (map al_id (audit_logs_table st))
             then audit_logs_table st' = audit_logs_table st @
                    [\<lparr>al_id = audit_logs_seq st, al_user_id = Some (u_id u),
                      al_action = ''CREATE'', al_entity_type = ''ASSIGNMENT'',
                      al_entity_id = Some (as_id row),
                      al_details = [(''base_id'', body req ''base_id''),
                        (''equipment_type_id'', body req ''equipment_type_id''),
                        (''personnel_id'', body req ''personnel_id''),
                        (''serial_number'', body req ''serial_number'')]\<rparr>]
                  \<and> oplog st' = oplog st @
                        [(Info, ''Audit Log:''), (Info, ''New assignment created:'')]
             else audit_logs_table st' = audit_logs_table st
                  \<and> oplog st' = oplog st @
                        [(Error, ''Failed to create audit log:''),
                         (Info, ''New assignment created:'')])" .
  next
    assume "ep \<in> {PostPurchases, PostTransfers, PostAssignments}"
    from i [OF this]
    show "fst (handle ev ep u req (st\<lparr>faults := f # a # fs\<rparr>)) =
        fst (handle ev ep u req (st\<lparr>faults := f # a' # fs\<rparr>))"
      and "audit_logs_table (snd (handle ev ep u req (st\<lparr>faults := f # True # fs\<rparr>))) =
            audit_logs_table st"
      by simp_all
  qed
qed

theorem C9_audit_entry_per_create_witness:
  "status (fst (handle sample_env PostPurchases admin_user
      (sample_request ''token-admin'' no_fields (sample_purchase_payload (JNum 3)))
      sample_state)) = 201
   \<and> fst (store_call (snd (store_call sample_state)))
   \<and> audit_logs_seq sample_state \<notin> set (map al_id (audit_logs_table sample_state))
   \<and> (\<exists>row. content (fst (handle sample_env PostPurchases admin_user
          (sample_request ''token-admin'' no_fields (sample_purchase_payload (JNum 3)))
          sample_state)) = PurchaseCreated row
        \<and> audit_logs_table (snd (handle sample_env PostPurchases admin_user
            (sample_request ''token-admin'' no_fields (sample_purchase_payload (JNum 3)))
            sample_state)) =
          [\<lparr>al_id = 1, al_user_id = Some 1, al_action = ''CREATE'',
            al_entity_type = ''PURCHASE'', al_entity_id = Some (p_id row),
            al_details = [(''base_id'', JNum 3), (''equipment_type_id'', JNum 1),
                          (''quantity'', JStr ''4''), (''cost'', JUndefined)]\<rparr>])
   \<and> status (fst (handle sample_env PostPurchases admin_user
      (sample_request ''token-admin'' no_fields (sample_purchase_payload (JNum 3)))
      (sample_state\<lparr>faults := [False, True]\<rparr>))) = 201
   \<and> \<not> fst (store_call (snd (store_call (sample_state\<lparr>faults := [False, True]\<rparr>))))
   \<and> audit_logs_table (snd (handle sample_env PostPurchases admin_user
      (sample_request ''token-admin'' no_fields (sample_purchase_payload (JNum 3)))
      (sample_state\<lparr>faults := [False, True]\<rparr>))) = []"
proof -
  let ?req = "sample_request ''token-admin'' no_fields (sample_purchase_payload (JNum 3))"
  let ?run = "handle sample_env PostPurchases admin_user ?req sample_state"
  have ok: "status (fst ?run) = 201"
    by (simp add: sample_purchase_payload_def sample_defs post_purchases_def
        insert_purchase_def route_eval)
  have sc: "fst (store_call (snd (store_call sample_state)))"
    "audit_logs_seq sample_state \<notin> set (map al_id (audit_logs_table sample_state))"
    "\<not> fst (store_call (snd (store_call (sample_state\<lparr>faults := [False, True]\<rparr>))))"
    by (simp_all add: sample_state_def store_call_def)
  have bd: "body ?req ''base_id'' = JNum 3" "body ?req ''equipment_type_id'' = JNum 1"
    "body ?req ''quantity'' = JStr ''4''" "body ?req ''cost'' = JUndefined"
    "u_id admin_user = 1" "audit_logs_seq sample_state = 1"
    "audit_logs_table sample_state = []"
    by (simp_all add: sample_purchase_payload_def sample_defs)
  have ok2: "status (fst (handle sample_env PostPurchases admin_user ?req
      (sample_state\<lparr>faults := [False, False]\<rparr>))) = 201"
    by (simp add: sample_purchase_payload_def sample_defs post_purchases_def
        insert_purchase_def route_eval)
  note c9 = C9_audit_entry_per_create [where ev = sample_env and u = admin_user and req = ?req
      and st = sample_state and r = "fst ?run" and st' = "snd ?run" and ep = PostPurchases
      and f = False and a = True and a' = False and fs = "[]"]
  from c9 ok sc(1,2)
  have one: "\<exists>row. content (fst ?run) = PurchaseCreated row
        \<and> audit_logs_table (snd ?run) =
          [\<lparr>al_id = 1, al_user_id = Some 1, al_action = ''CREATE'',
            al_entity_type = ''PURCHASE'', al_entity_id = Some (p_id row),
            al_details = [(''base_id'', JNum 3), (''equipment_type_id'', JNum 1),
                          (''quantity'', JStr ''4''), (''cost'', JUndefined)]\<rparr>]"
    unfolding bd by (simp del: handle.simps) blast
  from c9
  have "fst (handle sample_env PostPurchases admin_user ?req
          (sample_state\<lparr>faults := [False, True]\<rparr>)) =
        fst (handle sample_env PostPurchases admin_user ?req
          (sample_state\<lparr>faults := [False, False]\<rparr>))"
    and "audit_logs_table (snd (handle sample_env PostPurchases admin_user ?req
          (sample_state\<lparr>faults := [False, True]\<rparr>))) = audit_logs_table sample_state"
    by simp_all
  with ok sc one ok2 show ?thesis
    by (simp add: sample_state_def del: handle.simps)
qed

text \<open>
  C10. The dashboard ignores \<open>date_from\<close> and \<open>date_to\<close>: two requests that differ only in
  these two parameters get the same response and leave the same state, for every user,
  token and state of the store.
\<close>

theorem C10_dates_ignored:
  "route ev GetDashboardMetrics (req\<lparr>query := q(''date_from'' := a, ''date_to'' := b)\<rparr>) st =
   route ev GetDashboardMetrics (req\<lparr>query := q(''date_from'' := a', ''date_to'' := b')\<rparr>) st
   \<and> handle ev GetDashboardMetrics u (req\<lparr>query := q(''date_from'' := a, ''date_to'' := b)\<rparr>) st =
     handle ev GetDashboardMetrics u (req\<lparr>query := q\<rparr>) st"
  by (simp add: route_def authenticateToken_def get_dashboard_metrics_def
      dashboard_body_dates)

end
